theory Spec2Isabelle
  imports Complex_Main "HOL-Library.Sublist" "HOL-Library.Multiset"
    "HOL-Library.Char_ord" "HOL-Library.List_Lexorder" "HOL-Library.Product_Lexorder"
begin

section \<open>Floating-point values of the data frames\<close>

text \<open>
  The scripts compute with pandas/numpy float64 columns. Division never raises there:
  a finite value divided by zero is plus or minus infinity, and zero divided by zero
  is NaN. The special values decide several properties of the detectors, so a column
  entry is a finite number or one of the three special values. Finite values are
  reals. The operations of this section are exact; the z-score step, where rounding
  decides ties and flags, takes the rounding of its library as a parameter.
\<close>

datatype fval = Fin real | PInf | NInf | NaN

text \<open>\<^verbatim>\<open>a / b\<close> on two finite entries.\<close>

definition fdiv :: "real \<Rightarrow> real \<Rightarrow> fval" where
  "fdiv a b =
     (if b \<noteq> 0 then Fin (a / b)
      else if a = 0 then NaN
      else if 0 < a then PInf
      else NInf)"

text \<open>\<^verbatim>\<open>x * c\<close> for a positive finite constant \<open>c\<close> (the scripts only use 100).\<close>

fun fscale :: "fval \<Rightarrow> real \<Rightarrow> fval" where
  "fscale (Fin a) c = Fin (a * c)"
| "fscale PInf c = PInf"
| "fscale NInf c = NInf"
| "fscale NaN c = NaN"

text \<open>\<^verbatim>\<open>x - c\<close> for a finite constant.\<close>

fun fminus :: "fval \<Rightarrow> real \<Rightarrow> fval" where
  "fminus (Fin a) c = Fin (a - c)"
| "fminus PInf c = PInf"
| "fminus NInf c = NInf"
| "fminus NaN c = NaN"

text \<open>\<^verbatim>\<open>np.abs\<close>.\<close>

fun fabs :: "fval \<Rightarrow> fval" where
  "fabs (Fin a) = Fin \<bar>a\<bar>"
| "fabs PInf = PInf"
| "fabs NInf = PInf"
| "fabs NaN = NaN"

text \<open>\<^verbatim>\<open>.replace([np.inf, -np.inf], 0)\<close>: NaN is not in the list and stays.\<close>

fun replace_inf :: "fval \<Rightarrow> fval" where
  "replace_inf PInf = Fin 0"
| "replace_inf NInf = Fin 0"
| "replace_inf v = v"

text \<open>\<^verbatim>\<open>x > y\<close>: every comparison with NaN is false.\<close>

fun fgt :: "fval \<Rightarrow> fval \<Rightarrow> bool" where
  "fgt NaN y = False"
| "fgt x NaN = False"
| "fgt (Fin a) (Fin b) = (b < a)"
| "fgt (Fin a) PInf = False"
| "fgt (Fin a) NInf = True"
| "fgt PInf PInf = False"
| "fgt PInf y = True"
| "fgt NInf y = False"

text \<open>\<^verbatim>\<open>x < y\<close>.\<close>

definition flt :: "fval \<Rightarrow> fval \<Rightarrow> bool" where
  "flt x y = fgt y x"

fun is_finite :: "fval \<Rightarrow> bool" where
  "is_finite (Fin a) = True"
| "is_finite v = False"

section \<open>Feature matrix (STEP9, step 9.1)\<close>

text \<open>
  One row of \<^verbatim>\<open>features_df\<close> after the per-state sums have been merged and
  \<^verbatim>\<open>fillna(0)\<close> has run: every raw count is a number. Only the columns the derived
  features read are kept.
\<close>

record feature_row =
  state :: string
  age_0_5 :: int
  age_5_17 :: int
  age_18_greater :: int
  total_enrolments :: int
  total_bio_updates :: int
  total_demo_updates :: int

text \<open>\<^verbatim>\<open>(num / den * 100).replace([np.inf, -np.inf], 0)\<close>.\<close>

definition pct_of :: "int \<Rightarrow> int \<Rightarrow> fval" where
  "pct_of num den = replace_inf (fscale (fdiv (real_of_int num) (real_of_int den)) 100)"

definition bio_update_rate :: "feature_row \<Rightarrow> fval" where
  "bio_update_rate r = pct_of (total_bio_updates r) (total_enrolments r)"

definition demo_update_rate :: "feature_row \<Rightarrow> fval" where
  "demo_update_rate r = pct_of (total_demo_updates r) (total_enrolments r)"

definition child_enrol_pct :: "feature_row \<Rightarrow> fval" where
  "child_enrol_pct r = pct_of (age_0_5 r) (total_enrolments r)"

definition youth_enrol_pct :: "feature_row \<Rightarrow> fval" where
  "youth_enrol_pct r = pct_of (age_5_17 r) (total_enrolments r)"

definition adult_enrol_pct :: "feature_row \<Rightarrow> fval" where
  "adult_enrol_pct r = pct_of (age_18_greater r) (total_enrolments r)"

text \<open>The raw registration count as a float column.\<close>

definition total_enrolments_col :: "feature_row \<Rightarrow> fval" where
  "total_enrolments_col r = Fin (real_of_int (total_enrolments r))"

text \<open>The five derived columns of a row, in the order the script adds them.\<close>

definition derived_features :: "feature_row \<Rightarrow> fval list" where
  "derived_features r =
     [bio_update_rate r, demo_update_rate r, child_enrol_pct r, youth_enrol_pct r,
      adult_enrol_pct r]"

subsection \<open>The feature ratios of PHASE3\_STEP4\<close>

record anomaly_row =
  registrations_0_to_5 :: int
  registrations_5_to_17 :: int
  registrations_18_and_above :: int
  total_enrolments_s4 :: int
  biometric_updates_5_to_17 :: int
  biometric_updates_18_and_above :: int
  total_bio_updates_s4 :: int
  demographic_updates_5_to_17 :: int
  demographic_updates_18_and_above :: int
  total_demo_updates_s4 :: int

text \<open>\<^verbatim>\<open>(num / den).replace([np.inf, -np.inf], 0)\<close>.\<close>

definition ratio_of :: "int \<Rightarrow> int \<Rightarrow> fval" where
  "ratio_of num den = replace_inf (fdiv (real_of_int num) (real_of_int den))"

definition child_adult_enrol_ratio :: "anomaly_row \<Rightarrow> fval" where
  "child_adult_enrol_ratio r =
     ratio_of (registrations_0_to_5 r + registrations_5_to_17 r) (registrations_18_and_above r)"

definition child_bio_ratio :: "anomaly_row \<Rightarrow> fval" where
  "child_bio_ratio r = ratio_of (biometric_updates_5_to_17 r) (biometric_updates_18_and_above r)"

definition child_demo_ratio :: "anomaly_row \<Rightarrow> fval" where
  "child_demo_ratio r =
     ratio_of (demographic_updates_5_to_17 r) (demographic_updates_18_and_above r)"

definition bio_intensity :: "anomaly_row \<Rightarrow> fval" where
  "bio_intensity r = ratio_of (total_bio_updates_s4 r) (total_enrolments_s4 r)"

definition demo_intensity :: "anomaly_row \<Rightarrow> fval" where
  "demo_intensity r = ratio_of (total_demo_updates_s4 r) (total_enrolments_s4 r)"

definition child_0_5_pct :: "anomaly_row \<Rightarrow> fval" where
  "child_0_5_pct r = pct_of (registrations_0_to_5 r) (total_enrolments_s4 r)"

definition child_5_17_pct :: "anomaly_row \<Rightarrow> fval" where
  "child_5_17_pct r = pct_of (registrations_5_to_17 r) (total_enrolments_s4 r)"

text \<open>The list \<^verbatim>\<open>features\<close> of PHASE3\_STEP4, as column functions.\<close>

definition features_s4 :: "(anomaly_row \<Rightarrow> fval) list" where
  "features_s4 =
     [child_adult_enrol_ratio, child_bio_ratio, child_demo_ratio, bio_intensity,
      demo_intensity, child_0_5_pct, child_5_17_pct]"

section \<open>Z-score method (STEP9, step 9.3)\<close>

text \<open>
  The z-scores are computed by numpy, scipy and pandas on float64 columns. Every
  operation there rounds its result, and the reductions (mean, standard deviation) sum
  in an order of the library's own, so the arithmetic of this step is a parameter of the
  model: \<open>rnd\<close> rounds one finite result, \<open>np_mean\<close> and \<open>np_std\<close> are numpy's
  \<^verbatim>\<open>a.mean()\<close> and \<^verbatim>\<open>a.std()\<close> (\<^verbatim>\<open>ddof=0\<close>), \<open>pd_mean\<close> and \<open>pd_std\<close> are pandas'
  \<^verbatim>\<open>Series.mean()\<close> and \<^verbatim>\<open>Series.std()\<close> (\<^verbatim>\<open>ddof=1\<close>) on the numbers of a column.
  The properties of the detectors hold for every such library.
\<close>

record numlib =
  rnd :: "real \<Rightarrow> real"
  np_mean :: "real list \<Rightarrow> real"
  np_std :: "real list \<Rightarrow> real"
  pd_mean :: "real list \<Rightarrow> real"
  pd_std :: "real list \<Rightarrow> real"

text \<open>
  The library in exact arithmetic: no operation rounds. It agrees with float64 where
  every intermediate result is a float, as on the tables of the examples below, whose
  values are small multiples of powers of two.
\<close>

definition mean :: "real list \<Rightarrow> real" where
  "mean xs = sum_list xs / real (length xs)"

definition pstd :: "real list \<Rightarrow> real" where
  "pstd xs = sqrt (sum_list (map (\<lambda>x. (x - mean xs)\<^sup>2) xs) / real (length xs))"

definition sstd :: "real list \<Rightarrow> real" where
  "sstd xs = sqrt (sum_list (map (\<lambda>x. (x - mean xs)\<^sup>2) xs) / (real (length xs) - 1))"


text \<open>\<^verbatim>\<open>a / b\<close> on two floats, the quotient rounded.\<close>

definition rdiv :: "numlib \<Rightarrow> real \<Rightarrow> real \<Rightarrow> fval" where
  "rdiv L a b =
     (if b \<noteq> 0 then Fin (rnd L (a / b))
      else if a = 0 then NaN
      else if 0 < a then PInf
      else NInf)"

fun finite_values :: "fval list \<Rightarrow> real list" where
  "finite_values [] = []"
| "finite_values (Fin a # vs) = a # finite_values vs"
| "finite_values (v # vs) = finite_values vs"

text \<open>
  \<^verbatim>\<open>scipy.stats.zscore(a)\<close> is \<^verbatim>\<open>(a - a.mean()) / a.std()\<close>: there is no guard on the
  standard deviation. A NaN or infinite entry makes the mean or the deviation NaN, and
  with it every score of the column.
\<close>

definition zscore :: "numlib \<Rightarrow> fval list \<Rightarrow> fval list" where
  "zscore L a =
     (if list_all is_finite a
      then (let xs = finite_values a; mn = np_mean L xs; std = np_std L xs
            in map (\<lambda>x. rdiv L (rnd L (x - mn)) std) xs)
      else map (\<lambda>v. NaN) a)"

text \<open>
  A row of \<^verbatim>\<open>features_df\<close> as the detector reads it: the state and the stored values of
  the four tracked columns \<^verbatim>\<open>bio_update_rate\<close>, \<^verbatim>\<open>demo_update_rate\<close>,
  \<^verbatim>\<open>child_enrol_pct\<close> and \<^verbatim>\<open>total_enrolments\<close>.
\<close>

record frame_row =
  f_state :: string
  bio_update_rate_val :: fval
  demo_update_rate_val :: fval
  child_enrol_pct_val :: fval
  total_enrolments_val :: fval

text \<open>The four \<^verbatim>\<open>*_zscore\<close> columns and the flag, per row.\<close>

record zscore_row =
  bio_rate_zscore :: fval
  demo_rate_zscore :: fval
  child_pct_zscore :: fval
  enrol_zscore :: fval

definition zscore_columns :: "numlib \<Rightarrow> frame_row list \<Rightarrow> zscore_row list" where
  "zscore_columns L features_df =
     (let b = map fabs (zscore L (map bio_update_rate_val features_df));
          d = map fabs (zscore L (map demo_update_rate_val features_df));
          c = map fabs (zscore L (map child_enrol_pct_val features_df));
          e = map fabs (zscore L (map total_enrolments_val features_df))
      in map (\<lambda>i. \<lparr>bio_rate_zscore = b ! i, demo_rate_zscore = d ! i,
                     child_pct_zscore = c ! i, enrol_zscore = e ! i\<rparr>)
           [0..<length features_df])"

definition threshold :: real where
  "threshold = 3"

definition zscore_flag :: "zscore_row \<Rightarrow> bool" where
  "zscore_flag z =
     (fgt (bio_rate_zscore z) (Fin threshold) \<or> fgt (demo_rate_zscore z) (Fin threshold)
      \<or> fgt (child_pct_zscore z) (Fin threshold) \<or> fgt (enrol_zscore z) (Fin threshold))"




subsection \<open>The z-score detector of PHASE3\_STEP4\<close>

text \<open>
  \<^verbatim>\<open>np.abs((df[col] - mean) / std)\<close> with \<^verbatim>\<open>df[col].mean()\<close> and \<^verbatim>\<open>df[col].std()\<close> of
  pandas: both skip NaN, and the deviation is NaN below two numbers. An infinite entry
  makes the deviation NaN.
\<close>

definition z_scores_s4 :: "numlib \<Rightarrow> fval list \<Rightarrow> fval list" where
  "z_scores_s4 L col =
     (let xs = finite_values col; mean = pd_mean L xs; std = pd_std L xs in
      map (\<lambda>v. case v of
                 Fin x \<Rightarrow>
                   (if list_ex (\<lambda>w. w = PInf \<or> w = NInf) col \<or> length xs < 2 then NaN
                    else fabs (rdiv L (rnd L (x - mean)) std))
               | _ \<Rightarrow> NaN) col)"

text \<open>
  \<^verbatim>\<open>detect_zscore_anomalies(df, columns)\<close> on the stored columns of a frame of \<open>n\<close>
  rows: per row the number of columns whose score exceeds the threshold, and whether
  there is one.
\<close>

definition detect_zscore_anomalies :: "numlib \<Rightarrow> nat \<Rightarrow> fval list list \<Rightarrow> (nat \<times> bool) list" where
  "detect_zscore_anomalies L n columns =
     map (\<lambda>i. let zscore_anomaly_count =
                     length (filter (\<lambda>col. fgt (z_scores_s4 L col ! i) (Fin 3)) columns)
                in (zscore_anomaly_count, 0 < zscore_anomaly_count))
       [0..<n]"

section \<open>Time-series analysis (STEP9, step 9.4)\<close>

text \<open>
  A row of the enrolment table reduced to the columns the detector reads; the monthly
  period is its ordinal. \<^verbatim>\<open>monthly_enrol\<close> has the same columns, one row per state and
  month.
\<close>

record enrol_row =
  e_state :: string
  year_month :: int
  e_total :: int

definition row_key :: "enrol_row \<Rightarrow> string \<times> int" where
  "row_key r = (e_state r, year_month r)"

text \<open>\<^verbatim>\<open>groupby(['state', 'year_month'])['total_enrolments'].sum().reset_index()\<close>.\<close>

definition groupby_sum :: "enrol_row list \<Rightarrow> enrol_row list" where
  "groupby_sum en =
     map (\<lambda>k. \<lparr>e_state = fst k, year_month = snd k,
                 e_total = sum_list (map e_total (filter (\<lambda>r. row_key r = k) en))\<rparr>)
       (sort (remdups (map row_key en)))"

definition monthly_enrol :: "enrol_row list \<Rightarrow> enrol_row list" where
  "monthly_enrol en = sort_key row_key (groupby_sum en)"

text \<open>
  \<^verbatim>\<open>groupby('state')['total_enrolments'].pct_change()\<close>: each row against the previous
  row of its own state, \<^verbatim>\<open>cur / prev - 1\<close>; the first row of a state has no previous
  row and gets NaN. \<open>prev\<close> holds the last value seen per state.
\<close>

fun pct_change :: "(string \<rightharpoonup> int) \<Rightarrow> enrol_row list \<Rightarrow> fval list" where
  "pct_change prev [] = []"
| "pct_change prev (r # rs) =
     (case prev (e_state r) of
        None \<Rightarrow> NaN
      | Some p \<Rightarrow> fminus (fdiv (real_of_int (e_total r)) (real_of_int p)) 1)
     # pct_change (prev(e_state r \<mapsto> e_total r)) rs"

definition mom_change :: "enrol_row list \<Rightarrow> fval list" where
  "mom_change ms = map (\<lambda>v. fscale v 100) (pct_change Map.empty ms)"

definition spike_threshold :: real where
  "spike_threshold = 50"

definition temporal_flags :: "enrol_row list \<Rightarrow> bool list" where
  "temporal_flags ms = map (\<lambda>c. fgt (fabs c) (Fin spike_threshold)) (mom_change ms)"

text \<open>\<^verbatim>\<open>monthly_enrol[monthly_enrol['temporal_anomaly']]\<close>: the flagged rows.\<close>

definition temporal_anomalies :: "enrol_row list \<Rightarrow> enrol_row list" where
  "temporal_anomalies ms = map fst (filter snd (zip ms (temporal_flags ms)))"

definition states_with_temporal :: "enrol_row list \<Rightarrow> string list" where
  "states_with_temporal ms = remdups (map e_state (temporal_anomalies ms))"

text \<open>\<^verbatim>\<open>features_df['state'].isin(states_with_temporal)\<close>.\<close>

definition temporal_verdict :: "enrol_row list \<Rightarrow> string \<Rightarrow> bool" where
  "temporal_verdict en s = (s \<in> set (states_with_temporal (monthly_enrol en)))"

section \<open>Consensus aggregation (STEP9, step 9.5)\<close>

text \<open>
  One row of \<^verbatim>\<open>features_df\<close> after the three detectors have written their columns.
  The isolation forest is scikit-learn's; its flag and score are data here.
\<close>

record verdict_row =
  v_state :: string
  iso_forest_anomaly :: bool
  iso_forest_score :: real
  zscore_anomaly :: bool
  temporal_anomaly :: bool

text \<open>\<^verbatim>\<open>astype(int)\<close> on a boolean column.\<close>

definition astype_int :: "bool \<Rightarrow> int" where
  "astype_int b = (if b then 1 else 0)"

definition anomaly_count :: "verdict_row \<Rightarrow> int" where
  "anomaly_count r =
     astype_int (iso_forest_anomaly r) + astype_int (zscore_anomaly r)
       + astype_int (temporal_anomaly r)"

definition consensus_anomaly :: "verdict_row \<Rightarrow> bool" where
  "consensus_anomaly r = (2 \<le> anomaly_count r)"

text \<open>\<^verbatim>\<open>features_df[features_df['consensus_anomaly']]\<close>: boolean-mask selection.\<close>

definition consensus_anomalies :: "verdict_row list \<Rightarrow> verdict_row list" where
  "consensus_anomalies df = filter consensus_anomaly df"

text \<open>
  Chart 5 labels the agreement counts: ticks \<^verbatim>\<open>range(4)\<close> carry the labels
  \<^verbatim>\<open>0 (Normal), 1 (Low), 2 (Medium), 3 (High)\<close>. The tier of a count is the label of
  its tick; a count with no tick has none.
\<close>

datatype tier = Normal | Low | Medium | High

definition xticks :: "int list" where
  "xticks = [0, 1, 2, 3]"

definition xticklabels :: "tier list" where
  "xticklabels = [Normal, Low, Medium, High]"

definition priority_tier :: "int \<Rightarrow> tier option" where
  "priority_tier c = map_of (zip xticks xticklabels) c"

text \<open>The severity order of the tiers, for stating monotonicity.\<close>

fun tier_rank :: "tier \<Rightarrow> nat" where
  "tier_rank Normal = 0"
| "tier_rank Low = 1"
| "tier_rank Medium = 2"
| "tier_rank High = 3"

text \<open>
  The display loop of step 9.5 walks \<^verbatim>\<open>consensus_anomalies.iterrows()\<close>: one line per
  row, in the order of the frame, with the techniques that flagged it.
\<close>

definition techniques :: "verdict_row \<Rightarrow> string list" where
  "techniques r =
     (if iso_forest_anomaly r then [''Isolation Forest''] else [])
     @ (if zscore_anomaly r then [''Z-Score''] else [])
     @ (if temporal_anomaly r then [''Time-Series''] else [])"

definition consensus_listing :: "verdict_row list \<Rightarrow> (string \<times> int \<times> string list) list" where
  "consensus_listing df =
     map (\<lambda>r. (v_state r, anomaly_count r, techniques r)) (consensus_anomalies df)"

text \<open>
  The three detectors write their columns into the master table. The isolation forest
  is a parameter: \<open>forest features_df i\<close> is its flag and score for row \<open>i\<close>.
\<close>

definition run_detectors ::
  "(frame_row list \<Rightarrow> nat \<Rightarrow> bool \<times> real) \<Rightarrow> numlib \<Rightarrow> frame_row list \<Rightarrow> enrol_row list
     \<Rightarrow> verdict_row list" where
  "run_detectors forest L features_df en =
     map (\<lambda>i. \<lparr>v_state = f_state (features_df ! i),
                iso_forest_anomaly = fst (forest features_df i),
                iso_forest_score = snd (forest features_df i),
                zscore_anomaly = zscore_flag (zscore_columns L features_df ! i),
                temporal_anomaly = temporal_verdict en (f_state (features_df ! i))\<rparr>)
       [0..<length features_df]"

subsection \<open>The consensus step of PHASE3\_STEP4\<close>

record method_row =
  state_s4 :: string
  iso_is_anomaly :: bool
  iso_score :: real
  zscore_is_anomaly :: bool
  dbscan_is_anomaly :: bool

definition anomaly_method_count :: "method_row \<Rightarrow> int" where
  "anomaly_method_count r =
     astype_int (iso_is_anomaly r) + astype_int (zscore_is_anomaly r)
       + astype_int (dbscan_is_anomaly r)"

definition consensus_anomalies_s4 :: "method_row list \<Rightarrow> method_row list" where
  "consensus_anomalies_s4 df = filter (\<lambda>r. 2 \<le> anomaly_method_count r) df"

text \<open>
  \<^verbatim>\<open>consensus_anomalies.sort_values('anomaly_method_count', ascending=False)\<close>. pandas
  sorts on the key column alone: with \<^verbatim>\<open>ascending=False\<close> it reverses the keys, asks
  numpy for the permutation that sorts them (\<^verbatim>\<open>argsort\<close>, quicksort by default, so the
  order among equal keys is the library's), maps it back to row positions, reverses
  it and takes the rows in that order. numpy's \<^verbatim>\<open>argsort\<close> is a parameter.
\<close>

definition nargsort_desc :: "(int list \<Rightarrow> nat list) \<Rightarrow> int list \<Rightarrow> nat list" where
  "nargsort_desc argsort items =
     (let non_nans = rev items; non_nan_idx = rev [0..<length items]
      in rev (map (\<lambda>j. non_nan_idx ! j) (argsort non_nans)))"

definition consensus_sorted :: "(int list \<Rightarrow> nat list) \<Rightarrow> method_row list \<Rightarrow> method_row list" where
  "consensus_sorted argsort df =
     (let consensus = consensus_anomalies_s4 df
      in map (\<lambda>i. consensus ! i) (nargsort_desc argsort (map anomaly_method_count consensus)))"

text \<open>An \<^verbatim>\<open>argsort\<close> that keeps equal keys in their order, as an instance.\<close>

definition insertion_argsort :: "int list \<Rightarrow> nat list" where
  "insertion_argsort ks = sort_key (\<lambda>i. ks ! i) [0..<length ks]"

section \<open>Anomaly characterization (STEP9, step 9.6)\<close>

text \<open>
  \<^verbatim>\<open>Series.quantile(q)\<close>: NaN entries are skipped, the rest is sorted and the value at
  position \<open>(n - 1) * q\<close> is interpolated linearly between its neighbours. A column
  with no number has quantile NaN. The feature columns hold no infinity (the builder
  replaces it), so the numbers of a column are its non-NaN entries.
\<close>

definition quantile :: "fval list \<Rightarrow> real \<Rightarrow> fval" where
  "quantile col q =
     (let vs = sort (finite_values col); n = length vs in
      if n = 0 then NaN
      else (let h = real (n - 1) * q; lo = nat \<lfloor>h\<rfloor>; hi = min (lo + 1) (n - 1)
            in Fin (vs ! lo + (h - real lo) * (vs ! hi - vs ! lo))))"

text \<open>One \<^verbatim>\<open>if / elif\<close> pair of \<^verbatim>\<open>characterize_anomaly\<close>.\<close>

definition band_reason :: "fval \<Rightarrow> fval list \<Rightarrow> string \<Rightarrow> string \<Rightarrow> string list" where
  "band_reason v col high low =
     (if fgt v (quantile col (95 / 100)) then [high]
      else if flt v (quantile col (5 / 100)) then [low]
      else [])"

definition reasons :: "feature_row list \<Rightarrow> feature_row \<Rightarrow> string list" where
  "reasons features_df row =
     band_reason (bio_update_rate row) (map bio_update_rate features_df)
       ''Extremely high bio update rate'' ''Extremely low bio update rate''
     @ band_reason (demo_update_rate row) (map demo_update_rate features_df)
       ''Extremely high demo update rate'' ''Extremely low demo update rate''
     @ band_reason (child_enrol_pct row) (map child_enrol_pct features_df)
       ''Unusually high child enrolment %'' ''Unusually low child enrolment %''
     @ band_reason (total_enrolments_col row) (map total_enrolments_col features_df)
       ''Very large population'' ''Very small population''"

text \<open>\<^verbatim>\<open>sep.join(parts)\<close>.\<close>

fun join :: "string \<Rightarrow> string list \<Rightarrow> string" where
  "join sep [] = []"
| "join sep [x] = x"
| "join sep (x # y # ys) = x @ sep @ join sep (y # ys)"

definition characterize_anomaly :: "feature_row list \<Rightarrow> feature_row \<Rightarrow> string" where
  "characterize_anomaly features_df row =
     (let rs = reasons features_df row in
      if rs \<noteq> [] then join ''; '' rs else ''Complex multivariate pattern'')"

text \<open>\<^verbatim>\<open>features_df.apply(characterize_anomaly, axis=1)\<close>: one string per row of the table.\<close>

definition anomaly_characterization :: "feature_row list \<Rightarrow> string list" where
  "anomaly_characterization features_df = map (characterize_anomaly features_df) features_df"

section \<open>Properties of the feature builder\<close>

text \<open>
  What a percentage feature is, by case: a quotient when the denominator is not zero,
  0 when only the denominator is zero (the infinity is replaced), NaN when both are.
\<close>

lemma pct_of_cases:
  "pct_of n d = (if d \<noteq> 0 then Fin (real_of_int n / real_of_int d * 100)
                 else if n = 0 then NaN else Fin 0)"
  by (simp add: pct_of_def fdiv_def)

lemma ratio_of_cases:
  "ratio_of n d = (if d \<noteq> 0 then Fin (real_of_int n / real_of_int d)
                 else if n = 0 then NaN else Fin 0)"
  by (simp add: ratio_of_def fdiv_def)

text \<open>
  Claim C1 says every derived feature is finite and a zero denominator gives 0, also
  for 0 / 0. The builder replaces the infinities only: for a region with no
  registrations and no biometric updates, \<^verbatim>\<open>bio_update_rate\<close> and \<^verbatim>\<open>child_enrol_pct\<close>
  are NaN, in STEP9 and in PHASE3\_STEP4 alike, while the feature with a non-zero
  numerator is 0 as claimed.
\<close>

theorem zero_by_zero_feature_is_nan:
  "bio_update_rate \<lparr>state = ''ladakh'', age_0_5 = 0, age_5_17 = 0, age_18_greater = 0,
       total_enrolments = 0, total_bio_updates = 0, total_demo_updates = 7\<rparr> = NaN
   \<and> child_enrol_pct \<lparr>state = ''ladakh'', age_0_5 = 0, age_5_17 = 0, age_18_greater = 0,
       total_enrolments = 0, total_bio_updates = 0, total_demo_updates = 7\<rparr> = NaN
   \<and> demo_update_rate \<lparr>state = ''ladakh'', age_0_5 = 0, age_5_17 = 0, age_18_greater = 0,
       total_enrolments = 0, total_bio_updates = 0, total_demo_updates = 7\<rparr> = Fin 0
   \<and> bio_intensity \<lparr>registrations_0_to_5 = 0, registrations_5_to_17 = 0,
       registrations_18_and_above = 0, total_enrolments_s4 = 0,
       biometric_updates_5_to_17 = 0, biometric_updates_18_and_above = 0,
       total_bio_updates_s4 = 0, demographic_updates_5_to_17 = 3,
       demographic_updates_18_and_above = 4, total_demo_updates_s4 = 7\<rparr> = NaN"
  by (simp add: bio_update_rate_def child_enrol_pct_def demo_update_rate_def bio_intensity_def
      pct_of_def ratio_of_def fdiv_def)

section \<open>Properties of the z-score detectors\<close>


lemma finite_values_nth: "list_all is_finite a \<Longrightarrow> i < length a \<Longrightarrow> a ! i = Fin (finite_values a ! i)"
proof (induction a arbitrary: i)
  case Nil
  then show ?case by simp
next
  case (Cons v vs)
  then obtain x where v: "v = Fin x" by (cases v) auto
  show ?case
  proof (cases i)
    case 0
    with v show ?thesis by simp
  next
    case (Suc k)
    with Cons v show ?thesis by simp
  qed
qed







text \<open>
  In exact arithmetic a zero deviation means a constant column: every value is the mean,
  so the hypotheses of the next theorem hold for every region of such a column.
\<close>

lemma sumsq_zero:
  "sum_list (map (\<lambda>x. (x - m)\<^sup>2) xs) = (0::real) \<Longrightarrow> x \<in> set xs \<Longrightarrow> x = m"
proof -
  assume s: "sum_list (map (\<lambda>x. (x - m)\<^sup>2) xs) = 0" and x: "x \<in> set xs"
  have "\<forall>y \<in> set (map (\<lambda>x. (x - m)\<^sup>2) xs). y = 0"
    using s by (subst (asm) sum_list_nonneg_eq_0_iff) auto
  with x have "(x - m)\<^sup>2 = 0" by auto
  then show "x = m" by simp
qed

lemma pstd_zero: "pstd xs = 0 \<Longrightarrow> x \<in> set xs \<Longrightarrow> x = mean xs"
proof -
  assume p: "pstd xs = 0" and x: "x \<in> set xs"
  from x have "xs \<noteq> []" by auto
  then have n: "real (length xs) \<noteq> 0" by simp
  from p have "sum_list (map (\<lambda>x. (x - mean xs)\<^sup>2) xs) / real (length xs) = 0"
    by (simp add: pstd_def)
  with n have "sum_list (map (\<lambda>x. (x - mean xs)\<^sup>2) xs) = 0" by simp
  then show ?thesis using x by (rule sumsq_zero)
qed

lemma sstd_zero: "sstd xs = 0 \<Longrightarrow> 2 \<le> length xs \<Longrightarrow> x \<in> set xs \<Longrightarrow> x = mean xs"
proof -
  assume p: "sstd xs = 0" and l: "2 \<le> length xs" and x: "x \<in> set xs"
  from l have n: "real (length xs) - 1 \<noteq> 0" by simp
  from p have "sum_list (map (\<lambda>x. (x - mean xs)\<^sup>2) xs) / (real (length xs) - 1) = 0"
    by (simp add: sstd_def)
  with n have "sum_list (map (\<lambda>x. (x - mean xs)\<^sup>2) xs) = 0" by simp
  then show ?thesis using x by (rule sumsq_zero)
qed









text \<open>
  Five regions. Their counts give the stored feature values of the frame below; on these
  values no operation of the z-score step rounds.
\<close>

lemma example_features:
  "map bio_update_rate
      [\<lparr>state = ''assam'', age_0_5 = 10, age_5_17 = 20, age_18_greater = 98,
        total_enrolments = 128, total_bio_updates = 9, total_demo_updates = 4\<rparr>,
       \<lparr>state = ''bihar'', age_0_5 = 10, age_5_17 = 20, age_18_greater = 98,
        total_enrolments = 128, total_bio_updates = 33, total_demo_updates = 4\<rparr>,
       \<lparr>state = ''goa'', age_0_5 = 10, age_5_17 = 20, age_18_greater = 98,
        total_enrolments = 128, total_bio_updates = 21, total_demo_updates = 9\<rparr>,
       \<lparr>state = ''kerala'', age_0_5 = 15, age_5_17 = 20, age_18_greater = 93,
        total_enrolments = 128, total_bio_updates = 15, total_demo_updates = 4\<rparr>,
       \<lparr>state = ''sikkim'', age_0_5 = 160, age_5_17 = 320, age_18_greater = 1568,
        total_enrolments = 2048, total_bio_updates = 352, total_demo_updates = 64\<rparr>]
   = map bio_update_rate_val
      [\<lparr>f_state = ''assam'', bio_update_rate_val = Fin (225 / 32),
        demo_update_rate_val = Fin (25 / 8), child_enrol_pct_val = Fin (125 / 16),
        total_enrolments_val = Fin 128\<rparr>,
       \<lparr>f_state = ''bihar'', bio_update_rate_val = Fin (825 / 32),
        demo_update_rate_val = Fin (25 / 8), child_enrol_pct_val = Fin (125 / 16),
        total_enrolments_val = Fin 128\<rparr>,
       \<lparr>f_state = ''goa'', bio_update_rate_val = Fin (525 / 32),
        demo_update_rate_val = Fin (225 / 32), child_enrol_pct_val = Fin (125 / 16),
        total_enrolments_val = Fin 128\<rparr>,
       \<lparr>f_state = ''kerala'', bio_update_rate_val = Fin (375 / 32),
        demo_update_rate_val = Fin (25 / 8), child_enrol_pct_val = Fin (375 / 32),
        total_enrolments_val = Fin 128\<rparr>,
       \<lparr>f_state = ''sikkim'', bio_update_rate_val = Fin (275 / 16),
        demo_update_rate_val = Fin (25 / 8), child_enrol_pct_val = Fin (125 / 16),
        total_enrolments_val = Fin 2048\<rparr>]
   \<and> map demo_update_rate
      [\<lparr>state = ''assam'', age_0_5 = 10, age_5_17 = 20, age_18_greater = 98,
        total_enrolments = 128, total_bio_updates = 9, total_demo_updates = 4\<rparr>,
       \<lparr>state = ''bihar'', age_0_5 = 10, age_5_17 = 20, age_18_greater = 98,
        total_enrolments = 128, total_bio_updates = 33, total_demo_updates = 4\<rparr>,
       \<lparr>state = ''goa'', age_0_5 = 10, age_5_17 = 20, age_18_greater = 98,
        total_enrolments = 128, total_bio_updates = 21, total_demo_updates = 9\<rparr>,
       \<lparr>state = ''kerala'', age_0_5 = 15, age_5_17 = 20, age_18_greater = 93,
        total_enrolments = 128, total_bio_updates = 15, total_demo_updates = 4\<rparr>,
       \<lparr>state = ''sikkim'', age_0_5 = 160, age_5_17 = 320, age_18_greater = 1568,
        total_enrolments = 2048, total_bio_updates = 352, total_demo_updates = 64\<rparr>]
   = map demo_update_rate_val
      [\<lparr>f_state = ''assam'', bio_update_rate_val = Fin (225 / 32),
        demo_update_rate_val = Fin (25 / 8), child_enrol_pct_val = Fin (125 / 16),
        total_enrolments_val = Fin 128\<rparr>,
       \<lparr>f_state = ''bihar'', bio_update_rate_val = Fin (825 / 32),
        demo_update_rate_val = Fin (25 / 8), child_enrol_pct_val = Fin (125 / 16),
        total_enrolments_val = Fin 128\<rparr>,
       \<lparr>f_state = ''goa'', bio_update_rate_val = Fin (525 / 32),
        demo_update_rate_val = Fin (225 / 32), child_enrol_pct_val = Fin (125 / 16),
        total_enrolments_val = Fin 128\<rparr>,
       \<lparr>f_state = ''kerala'', bio_update_rate_val = Fin (375 / 32),
        demo_update_rate_val = Fin (25 / 8), child_enrol_pct_val = Fin (375 / 32),
        total_enrolments_val = Fin 128\<rparr>,
       \<lparr>f_state = ''sikkim'', bio_update_rate_val = Fin (275 / 16),
        demo_update_rate_val = Fin (25 / 8), child_enrol_pct_val = Fin (125 / 16),
        total_enrolments_val = Fin 2048\<rparr>]
   \<and> map child_enrol_pct
      [\<lparr>state = ''assam'', age_0_5 = 10, age_5_17 = 20, age_18_greater = 98,
        total_enrolments = 128, total_bio_updates = 9, total_demo_updates = 4\<rparr>,
       \<lparr>state = ''bihar'', age_0_5 = 10, age_5_17 = 20, age_18_greater = 98,
        total_enrolments = 128, total_bio_updates = 33, total_demo_updates = 4\<rparr>,
       \<lparr>state = ''goa'', age_0_5 = 10, age_5_17 = 20, age_18_greater = 98,
        total_enrolments = 128, total_bio_updates = 21, total_demo_updates = 9\<rparr>,
       \<lparr>state = ''kerala'', age_0_5 = 15, age_5_17 = 20, age_18_greater = 93,
        total_enrolments = 128, total_bio_updates = 15, total_demo_updates = 4\<rparr>,
       \<lparr>state = ''sikkim'', age_0_5 = 160, age_5_17 = 320, age_18_greater = 1568,
        total_enrolments = 2048, total_bio_updates = 352, total_demo_updates = 64\<rparr>]
   = map child_enrol_pct_val
      [\<lparr>f_state = ''assam'', bio_update_rate_val = Fin (225 / 32),
        demo_update_rate_val = Fin (25 / 8), child_enrol_pct_val = Fin (125 / 16),
        total_enrolments_val = Fin 128\<rparr>,
       \<lparr>f_state = ''bihar'', bio_update_rate_val = Fin (825 / 32),
        demo_update_rate_val = Fin (25 / 8), child_enrol_pct_val = Fin (125 / 16),
        total_enrolments_val = Fin 128\<rparr>,
       \<lparr>f_state = ''goa'', bio_update_rate_val = Fin (525 / 32),
        demo_update_rate_val = Fin (225 / 32), child_enrol_pct_val = Fin (125 / 16),
        total_enrolments_val = Fin 128\<rparr>,
       \<lparr>f_state = ''kerala'', bio_update_rate_val = Fin (375 / 32),
        demo_update_rate_val = Fin (25 / 8), child_enrol_pct_val = Fin (375 / 32),
        total_enrolments_val = Fin 128\<rparr>,
       \<lparr>f_state = ''sikkim'', bio_update_rate_val = Fin (275 / 16),
        demo_update_rate_val = Fin (25 / 8), child_enrol_pct_val = Fin (125 / 16),
        total_enrolments_val = Fin 2048\<rparr>]
   \<and> map total_enrolments_col
      [\<lparr>state = ''assam'', age_0_5 = 10, age_5_17 = 20, age_18_greater = 98,
        total_enrolments = 128, total_bio_updates = 9, total_demo_updates = 4\<rparr>,
       \<lparr>state = ''bihar'', age_0_5 = 10, age_5_17 = 20, age_18_greater = 98,
        total_enrolments = 128, total_bio_updates = 33, total_demo_updates = 4\<rparr>,
       \<lparr>state = ''goa'', age_0_5 = 10, age_5_17 = 20, age_18_greater = 98,
        total_enrolments = 128, total_bio_updates = 21, total_demo_updates = 9\<rparr>,
       \<lparr>state = ''kerala'', age_0_5 = 15, age_5_17 = 20, age_18_greater = 93,
        total_enrolments = 128, total_bio_updates = 15, total_demo_updates = 4\<rparr>,
       \<lparr>state = ''sikkim'', age_0_5 = 160, age_5_17 = 320, age_18_greater = 1568,
        total_enrolments = 2048, total_bio_updates = 352, total_demo_updates = 64\<rparr>]
   = map total_enrolments_val
      [\<lparr>f_state = ''assam'', bio_update_rate_val = Fin (225 / 32),
        demo_update_rate_val = Fin (25 / 8), child_enrol_pct_val = Fin (125 / 16),
        total_enrolments_val = Fin 128\<rparr>,
       \<lparr>f_state = ''bihar'', bio_update_rate_val = Fin (825 / 32),
        demo_update_rate_val = Fin (25 / 8), child_enrol_pct_val = Fin (125 / 16),
        total_enrolments_val = Fin 128\<rparr>,
       \<lparr>f_state = ''goa'', bio_update_rate_val = Fin (525 / 32),
        demo_update_rate_val = Fin (225 / 32), child_enrol_pct_val = Fin (125 / 16),
        total_enrolments_val = Fin 128\<rparr>,
       \<lparr>f_state = ''kerala'', bio_update_rate_val = Fin (375 / 32),
        demo_update_rate_val = Fin (25 / 8), child_enrol_pct_val = Fin (375 / 32),
        total_enrolments_val = Fin 128\<rparr>,
       \<lparr>f_state = ''sikkim'', bio_update_rate_val = Fin (275 / 16),
        demo_update_rate_val = Fin (25 / 8), child_enrol_pct_val = Fin (125 / 16),
        total_enrolments_val = Fin 2048\<rparr>]"
  by (simp add: bio_update_rate_def demo_update_rate_def child_enrol_pct_def
      total_enrolments_col_def pct_of_def fdiv_def)








section \<open>Properties of the time-series detector\<close>

lemma pct_change_length: "length (pct_change prev ms) = length ms"
  by (induction ms arbitrary: prev) auto

lemma pct_change_adjacent:
  "Suc i < length ms \<Longrightarrow> e_state (ms ! i) = e_state (ms ! Suc i) \<Longrightarrow>
   pct_change prev ms ! Suc i =
     fminus (fdiv (real_of_int (e_total (ms ! Suc i))) (real_of_int (e_total (ms ! i)))) 1"
proof (induction ms arbitrary: prev i)
  case Nil
  then show ?case by simp
next
  case (Cons r rs)
  show ?case
  proof (cases i)
    case 0
    with Cons.prems obtain r' rs' where rs: "rs = r' # rs'" by (cases rs) auto
    with 0 Cons.prems show ?thesis by simp
  next
    case (Suc k)
    with Cons show ?thesis by simp
  qed
qed

lemma pct_change_has_predecessor:
  "i < length ms \<Longrightarrow> pct_change prev ms ! i \<noteq> NaN \<Longrightarrow>
   prev (e_state (ms ! i)) \<noteq> None \<or> (\<exists>j<i. e_state (ms ! j) = e_state (ms ! i))"
proof (induction ms arbitrary: prev i)
  case Nil
  then show ?case by simp
next
  case (Cons r rs)
  show ?case
  proof (cases i)
    case 0
    with Cons.prems show ?thesis by (auto split: option.splits)
  next
    case (Suc k)
    with Cons.prems have k: "k < length rs" "pct_change (prev(e_state r \<mapsto> e_total r)) rs ! k \<noteq> NaN"
      by simp_all
    from Cons.IH [OF k]
    have "(prev(e_state r \<mapsto> e_total r)) (e_state (rs ! k)) \<noteq> None
          \<or> (\<exists>j<k. e_state (rs ! j) = e_state (rs ! k))" .
    then show ?thesis
    proof
      assume a: "(prev(e_state r \<mapsto> e_total r)) (e_state (rs ! k)) \<noteq> None"
      show ?thesis
      proof (cases "e_state (rs ! k) = e_state r")
        case True
        then have "e_state ((r # rs) ! 0) = e_state ((r # rs) ! i)" using Suc by simp
        then show ?thesis using Suc by blast
      next
        case False
        with a have "prev (e_state (rs ! k)) \<noteq> None" by simp
        then show ?thesis using Suc by simp
      qed
    next
      assume "\<exists>j<k. e_state (rs ! j) = e_state (rs ! k)"
      then obtain j where "j < k" "e_state (rs ! j) = e_state (rs ! k)" by blast
      then have "Suc j < i \<and> e_state ((r # rs) ! Suc j) = e_state ((r # rs) ! i)"
        using Suc by simp
      then show ?thesis by blast
    qed
  qed
qed

lemma temporal_flags_length: "length (temporal_flags ms) = length ms"
  by (simp add: temporal_flags_def mom_change_def pct_change_length)

lemma temporal_anomalies_iff:
  "(r \<in> set (temporal_anomalies ms)) = (\<exists>i<length ms. ms ! i = r \<and> temporal_flags ms ! i)"
proof -
  have "(r \<in> set (temporal_anomalies ms)) = ((r, True) \<in> set (zip ms (temporal_flags ms)))"
    by (auto simp: temporal_anomalies_def image_iff)
  also have "\<dots> = (\<exists>i<length ms. ms ! i = r \<and> temporal_flags ms ! i)"
    by (auto simp: in_set_zip temporal_flags_length)
  finally show ?thesis .
qed

lemma flag_not_nan:
  "i < length ms \<Longrightarrow> temporal_flags ms ! i \<Longrightarrow> pct_change Map.empty ms ! i \<noteq> NaN"
proof
  assume i: "i < length ms" and f: "temporal_flags ms ! i" and n: "pct_change Map.empty ms ! i = NaN"
  from i n have "mom_change ms ! i = NaN" by (simp add: mom_change_def pct_change_length)
  with i f show False by (simp add: temporal_flags_def mom_change_def pct_change_length)
qed

lemma groupby_keys: "map row_key (groupby_sum en) = sort (remdups (map row_key en))"
  by (simp add: groupby_sum_def row_key_def comp_def)

lemma monthly_enrol_groupby: "monthly_enrol en = groupby_sum en"
  by (simp add: monthly_enrol_def sort_key_id_if_sorted groupby_keys)

lemma monthly_keys: "map row_key (monthly_enrol en) = sort (remdups (map row_key en))"
  by (simp add: monthly_enrol_groupby groupby_keys)

lemma monthly_keys_sorted: "sorted (map row_key (monthly_enrol en))"
  by (simp add: monthly_keys)

lemma monthly_keys_distinct: "distinct (map row_key (monthly_enrol en))"
  by (simp add: monthly_keys)

lemma monthly_earlier:
  assumes "j < i" "i < length (monthly_enrol en)"
  shows "row_key (monthly_enrol en ! j) < row_key (monthly_enrol en ! i)"
proof -
  let ?ks = "map row_key (monthly_enrol en)"
  have "?ks ! j \<le> ?ks ! i"
    using monthly_keys_sorted assms by (simp add: sorted_iff_nth_mono del: nth_map)
  moreover have "?ks ! j \<noteq> ?ks ! i"
    using monthly_keys_distinct assms by (simp add: nth_eq_iff_index_eq del: nth_map)
  ultimately show ?thesis using assms by simp
qed

lemma event_has_earlier_period:
  assumes "r \<in> set (temporal_anomalies (monthly_enrol en))"
  shows "\<exists>p \<in> set (monthly_enrol en). e_state p = e_state r \<and> year_month p < year_month r"
proof -
  let ?ms = "monthly_enrol en"
  from assms obtain i where i: "i < length ?ms" "?ms ! i = r" "temporal_flags ?ms ! i"
    by (auto simp: temporal_anomalies_iff)
  then have "pct_change Map.empty ?ms ! i \<noteq> NaN" by (simp add: flag_not_nan)
  with i(1) have "\<exists>j<i. e_state (?ms ! j) = e_state (?ms ! i)"
    using pct_change_has_predecessor [of i ?ms Map.empty] by simp
  then obtain j where j: "j < i" "e_state (?ms ! j) = e_state (?ms ! i)" by blast
  then have "row_key (?ms ! j) < row_key (?ms ! i)" using i(1) by (rule_tac monthly_earlier)
  with j have "year_month (?ms ! j) < year_month (?ms ! i)" by (simp add: row_key_def)
  moreover have "?ms ! j \<in> set ?ms" using j(1) i(1) by simp
  ultimately show ?thesis using j(2) i(2) by blast
qed

lemma monthly_key_in_raw:
  "p \<in> set (monthly_enrol en) \<Longrightarrow> \<exists>a \<in> set en. e_state a = e_state p \<and> year_month a = year_month p"
proof -
  assume "p \<in> set (monthly_enrol en)"
  then have "row_key p \<in> set (map row_key (monthly_enrol en))" by simp
  then have "row_key p \<in> set (map row_key en)" by (simp add: monthly_keys)
  then show ?thesis by (auto simp: row_key_def)
qed

lemma spike_after_zero:
  assumes "Suc i < length ms" "e_state (ms ! i) = e_state (ms ! Suc i)"
    "e_total (ms ! i) = 0" "e_total (ms ! Suc i) \<noteq> 0"
  shows "mom_change ms ! Suc i \<in> {PInf, NInf} \<and> temporal_flags ms ! Suc i"
proof -
  have "pct_change Map.empty ms ! Suc i =
      fminus (fdiv (real_of_int (e_total (ms ! Suc i))) (real_of_int (e_total (ms ! i)))) 1"
    using assms(1,2) by (rule pct_change_adjacent)
  then have "pct_change Map.empty ms ! Suc i \<in> {PInf, NInf}"
    using assms(3,4) by (simp add: fdiv_def)
  then have m: "mom_change ms ! Suc i \<in> {PInf, NInf}"
    using assms(1) by (auto simp: mom_change_def pct_change_length)
  then have "temporal_flags ms ! Suc i"
    using assms(1) by (auto simp: temporal_flags_def mom_change_def pct_change_length)
  with m show ?thesis by simp
qed

lemma monthly_adjacent:
  assumes a: "a \<in> set (monthly_enrol en)" and b: "b \<in> set (monthly_enrol en)"
    and st: "e_state a = e_state b" and lt: "year_month a < year_month b"
    and none: "\<forall>c \<in> set (monthly_enrol en). e_state c = e_state a \<longrightarrow>
        \<not> (year_month a < year_month c \<and> year_month c < year_month b)"
  shows "\<exists>i. Suc i < length (monthly_enrol en) \<and> monthly_enrol en ! i = a
      \<and> monthly_enrol en ! Suc i = b"
proof -
  let ?ms = "monthly_enrol en"
  from a obtain i where i: "i < length ?ms" "?ms ! i = a" by (auto simp: in_set_conv_nth)
  from b obtain k where k: "k < length ?ms" "?ms ! k = b" by (auto simp: in_set_conv_nth)
  have ab: "row_key a < row_key b" using st lt by (simp add: row_key_def)
  have ik: "i < k"
  proof (rule ccontr)
    assume "\<not> i < k"
    then have "k = i \<or> k < i" by auto
    then show False
    proof
      assume "k = i" with i k lt show False by simp
    next
      assume "k < i"
      then have "row_key (?ms ! k) < row_key (?ms ! i)" using i(1) by (rule monthly_earlier)
      with i k ab show False by simp
    qed
  qed
  have "k = Suc i"
  proof (rule ccontr)
    assume "k \<noteq> Suc i"
    with ik have s: "Suc i < k" by simp
    let ?c = "?ms ! Suc i"
    have c: "?c \<in> set ?ms" using s k(1) by simp
    have "row_key (?ms ! i) < row_key ?c" using s k(1) by (intro monthly_earlier) simp_all
    moreover have "row_key ?c < row_key (?ms ! k)" using s k(1) by (intro monthly_earlier)
    ultimately have "row_key a < row_key ?c" "row_key ?c < row_key b" using i k by simp_all
    then have "e_state ?c = e_state a \<and> year_month a < year_month ?c \<and> year_month ?c < year_month b"
      using st by (auto simp: row_key_def)
    with none c show False by blast
  qed
  with i k show ?thesis by blast
qed

text \<open>A small enrolment table: Goa goes from 0 in month 1 to 150 in month 2, Kerala has one month.\<close>

lemma example_monthly:
  "monthly_enrol [\<lparr>e_state = ''goa'', year_month = 2, e_total = 100\<rparr>,
                  \<lparr>e_state = ''kerala'', year_month = 1, e_total = 40\<rparr>,
                  \<lparr>e_state = ''goa'', year_month = 1, e_total = 0\<rparr>,
                  \<lparr>e_state = ''goa'', year_month = 2, e_total = 50\<rparr>]
   = [\<lparr>e_state = ''goa'', year_month = 1, e_total = 0\<rparr>,
      \<lparr>e_state = ''goa'', year_month = 2, e_total = 150\<rparr>,
      \<lparr>e_state = ''kerala'', year_month = 1, e_total = 40\<rparr>]"
  by (simp add: monthly_enrol_groupby groupby_sum_def row_key_def)

lemma example_events:
  "temporal_anomalies
     [\<lparr>e_state = ''goa'', year_month = 1, e_total = 0\<rparr>,
      \<lparr>e_state = ''goa'', year_month = 2, e_total = 150\<rparr>,
      \<lparr>e_state = ''kerala'', year_month = 1, e_total = 40\<rparr>]
   = [\<lparr>e_state = ''goa'', year_month = 2, e_total = 150\<rparr>]"
  by (simp add: temporal_anomalies_def temporal_flags_def mom_change_def fdiv_def
      spike_threshold_def)

text \<open>
  Claim C4. In the sorted monthly series of a region, take a period \<open>a\<close> and the next
  period \<open>b\<close> of the same region (no period of the region lies between them). When
  the value of \<open>a\<close> is 0 and the value of \<open>b\<close> is not, the division yields an infinite
  month-over-month change, not an error, and \<open>b\<close> is a row of \<^verbatim>\<open>temporal_anomalies\<close>, so
  the region's temporal verdict is true.
\<close>

theorem zero_predecessor_is_flagged:
  "a \<in> set (monthly_enrol en) \<and> b \<in> set (monthly_enrol en)
   \<and> e_state a = e_state b \<and> year_month a < year_month b
   \<and> (\<forall>c \<in> set (monthly_enrol en). e_state c = e_state a \<longrightarrow>
        \<not> (year_month a < year_month c \<and> year_month c < year_month b))
   \<and> e_total a = 0 \<and> e_total b \<noteq> 0
   \<longrightarrow> b \<in> set (temporal_anomalies (monthly_enrol en))
       \<and> temporal_verdict en (e_state b)
       \<and> (\<exists>i < length (monthly_enrol en). monthly_enrol en ! i = b
            \<and> mom_change (monthly_enrol en) ! i \<in> {PInf, NInf})"
proof
  let ?ms = "monthly_enrol en"
  assume h: "a \<in> set ?ms \<and> b \<in> set ?ms
   \<and> e_state a = e_state b \<and> year_month a < year_month b
   \<and> (\<forall>c \<in> set ?ms. e_state c = e_state a \<longrightarrow>
        \<not> (year_month a < year_month c \<and> year_month c < year_month b))
   \<and> e_total a = 0 \<and> e_total b \<noteq> 0"
  then obtain i where i: "Suc i < length ?ms" "?ms ! i = a" "?ms ! Suc i = b"
    using monthly_adjacent [of a en b] by blast
  have "e_state (?ms ! i) = e_state (?ms ! Suc i)" "e_total (?ms ! i) = 0"
    "e_total (?ms ! Suc i) \<noteq> 0"
    using h i by simp_all
  with i(1) have sp: "mom_change ?ms ! Suc i \<in> {PInf, NInf} \<and> temporal_flags ?ms ! Suc i"
    by (rule spike_after_zero)
  then have ev: "b \<in> set (temporal_anomalies ?ms)"
    using i by (auto simp: temporal_anomalies_iff)
  then have "temporal_verdict en (e_state b)"
    by (simp add: temporal_verdict_def states_with_temporal_def)
  with ev sp i show "b \<in> set (temporal_anomalies ?ms) \<and> temporal_verdict en (e_state b)
       \<and> (\<exists>i < length ?ms. ?ms ! i = b \<and> mom_change ?ms ! i \<in> {PInf, NInf})"
    by blast
qed

theorem zero_predecessor_is_flagged_witness:
  "\<lparr>e_state = ''goa'', year_month = 2, e_total = 150\<rparr>
     \<in> set (temporal_anomalies (monthly_enrol
          [\<lparr>e_state = ''goa'', year_month = 2, e_total = 100\<rparr>,
           \<lparr>e_state = ''kerala'', year_month = 1, e_total = 40\<rparr>,
           \<lparr>e_state = ''goa'', year_month = 1, e_total = 0\<rparr>,
           \<lparr>e_state = ''goa'', year_month = 2, e_total = 50\<rparr>]))
   \<and> temporal_verdict
          [\<lparr>e_state = ''goa'', year_month = 2, e_total = 100\<rparr>,
           \<lparr>e_state = ''kerala'', year_month = 1, e_total = 40\<rparr>,
           \<lparr>e_state = ''goa'', year_month = 1, e_total = 0\<rparr>,
           \<lparr>e_state = ''goa'', year_month = 2, e_total = 50\<rparr>] ''goa''"
  using zero_predecessor_is_flagged [of "\<lparr>e_state = ''goa'', year_month = 1, e_total = 0\<rparr>"
      "[\<lparr>e_state = ''goa'', year_month = 2, e_total = 100\<rparr>,
        \<lparr>e_state = ''kerala'', year_month = 1, e_total = 40\<rparr>,
        \<lparr>e_state = ''goa'', year_month = 1, e_total = 0\<rparr>,
        \<lparr>e_state = ''goa'', year_month = 2, e_total = 50\<rparr>]"
      "\<lparr>e_state = ''goa'', year_month = 2, e_total = 150\<rparr>"]
  by (simp add: example_monthly)

text \<open>
  Claim C7. Every temporal anomaly event of a region has an earlier period of the same
  region in the monthly series, so the first observed period is never an event; and a
  region whose enrolment rows all fall in one period is never temporally flagged.
\<close>

theorem first_period_never_flagged:
  "(r \<in> set (temporal_anomalies (monthly_enrol en)) \<longrightarrow>
      (\<exists>p \<in> set (monthly_enrol en). e_state p = e_state r \<and> year_month p < year_month r))
   \<and> ((\<forall>a \<in> set en. \<forall>b \<in> set en. e_state a = s \<and> e_state b = s \<longrightarrow> year_month a = year_month b)
        \<longrightarrow> \<not> temporal_verdict en s)"
proof (intro conjI impI)
  assume "r \<in> set (temporal_anomalies (monthly_enrol en))"
  then show "\<exists>p \<in> set (monthly_enrol en). e_state p = e_state r \<and> year_month p < year_month r"
    by (rule event_has_earlier_period)
next
  assume single: "\<forall>a \<in> set en. \<forall>b \<in> set en. e_state a = s \<and> e_state b = s \<longrightarrow> year_month a = year_month b"
  show "\<not> temporal_verdict en s"
  proof
    assume "temporal_verdict en s"
    then obtain r where r: "r \<in> set (temporal_anomalies (monthly_enrol en))" "e_state r = s"
      by (auto simp: temporal_verdict_def states_with_temporal_def)
    then obtain p where p: "p \<in> set (monthly_enrol en)" "e_state p = s" "year_month p < year_month r"
      using event_has_earlier_period by force
    from r(1) have "r \<in> set (monthly_enrol en)" by (auto simp: temporal_anomalies_iff)
    then obtain a where a: "a \<in> set en" "e_state a = s" "year_month a = year_month r"
      using monthly_key_in_raw r(2) by force
    from p obtain b where b: "b \<in> set en" "e_state b = s" "year_month b = year_month p"
      using monthly_key_in_raw by force
    from single a b have "year_month a = year_month b" by blast
    with a b p show False by simp
  qed
qed

theorem first_period_never_flagged_witness:
  "\<lparr>e_state = ''goa'', year_month = 2, e_total = 150\<rparr>
     \<in> set (temporal_anomalies (monthly_enrol
          [\<lparr>e_state = ''goa'', year_month = 2, e_total = 100\<rparr>,
           \<lparr>e_state = ''kerala'', year_month = 1, e_total = 40\<rparr>,
           \<lparr>e_state = ''goa'', year_month = 1, e_total = 0\<rparr>,
           \<lparr>e_state = ''goa'', year_month = 2, e_total = 50\<rparr>]))
   \<and> (\<exists>p \<in> set (monthly_enrol
          [\<lparr>e_state = ''goa'', year_month = 2, e_total = 100\<rparr>,
           \<lparr>e_state = ''kerala'', year_month = 1, e_total = 40\<rparr>,
           \<lparr>e_state = ''goa'', year_month = 1, e_total = 0\<rparr>,
           \<lparr>e_state = ''goa'', year_month = 2, e_total = 50\<rparr>]).
        e_state p = ''goa'' \<and> year_month p < 2)
   \<and> \<not> temporal_verdict
          [\<lparr>e_state = ''goa'', year_month = 2, e_total = 100\<rparr>,
           \<lparr>e_state = ''kerala'', year_month = 1, e_total = 40\<rparr>,
           \<lparr>e_state = ''goa'', year_month = 1, e_total = 0\<rparr>,
           \<lparr>e_state = ''goa'', year_month = 2, e_total = 50\<rparr>] ''kerala''"
proof -
  let ?en = "[\<lparr>e_state = ''goa'', year_month = 2, e_total = 100\<rparr>,
           \<lparr>e_state = ''kerala'', year_month = 1, e_total = 40\<rparr>,
           \<lparr>e_state = ''goa'', year_month = 1, e_total = 0\<rparr>,
           \<lparr>e_state = ''goa'', year_month = 2, e_total = 50\<rparr>]"
  let ?r = "\<lparr>e_state = ''goa'', year_month = 2, e_total = 150\<rparr>"
  note t = first_period_never_flagged [of ?r ?en "''kerala''"]
  have ev: "?r \<in> set (temporal_anomalies (monthly_enrol ?en))"
    by (simp add: example_monthly example_events)
  have single: "\<forall>a \<in> set ?en. \<forall>b \<in> set ?en.
      e_state a = ''kerala'' \<and> e_state b = ''kerala'' \<longrightarrow> year_month a = year_month b"
    by simp
  from t ev have "\<exists>p \<in> set (monthly_enrol ?en). e_state p = e_state ?r \<and> year_month p < year_month ?r"
    by blast
  then have p: "\<exists>p \<in> set (monthly_enrol ?en). e_state p = ''goa'' \<and> year_month p < 2"
    by simp
  from t single have "\<not> temporal_verdict ?en ''kerala''" by blast
  with ev p show ?thesis by blast
qed

section \<open>Properties of the consensus aggregator\<close>

lemma astype_int_cases: "astype_int b = 0 \<or> astype_int b = 1"
  by (simp add: astype_int_def)

lemma anomaly_count_range: "0 \<le> anomaly_count r \<and> anomaly_count r \<le> 3"
  using astype_int_cases [of "iso_forest_anomaly r"]
    astype_int_cases [of "zscore_anomaly r"]
    astype_int_cases [of "temporal_anomaly r"]
  unfolding anomaly_count_def by linarith

lemma flag_count: "astype_int a + astype_int b + astype_int c = int (length (filter (\<lambda>flag. flag) [a, b, c]))"
  by (simp add: astype_int_def)

text \<open>
  Claim C2. A region is in the high-priority consensus subset exactly when it is a row
  of the master table and at least two of its three detector flags are set; so a region
  with exactly two flags is in the subset and a region with exactly one is not.
\<close>

theorem consensus_subset_iff:
  "(r \<in> set (consensus_anomalies df)) =
     (r \<in> set df
      \<and> 2 \<le> length (filter (\<lambda>flag. flag)
                 [iso_forest_anomaly r, zscore_anomaly r, temporal_anomaly r]))"
proof -
  have "anomaly_count r =
      int (length (filter (\<lambda>flag. flag)
             [iso_forest_anomaly r, zscore_anomaly r, temporal_anomaly r]))"
    unfolding anomaly_count_def by (rule flag_count)
  then show ?thesis
    by (simp add: consensus_anomalies_def consensus_anomaly_def)
qed

lemma priority_tier_values:
  "priority_tier 0 = Some Normal" "priority_tier 1 = Some Low"
  "priority_tier 2 = Some Medium" "priority_tier 3 = Some High"
  by (simp_all add: priority_tier_def xticks_def xticklabels_def)

lemma priority_tier_Some:
  "priority_tier c = Some t \<Longrightarrow> tier_rank t = nat c \<and> 0 \<le> c \<and> c \<le> 3"
  by (auto simp: priority_tier_def xticks_def xticklabels_def split: if_splits)

text \<open>
  Claim C6. The agreement count of a region is the number of its detector flags that
  are set, so it lies between 0 and 3; the tier is a function of the count alone, with
  0 Normal, 1 Low, 2 Medium and 3 High, defined at every region's count, and a larger
  count never has a lower tier.
\<close>

theorem agreement_count_and_tier:
  "anomaly_count r =
     int (length (filter (\<lambda>flag. flag)
            [iso_forest_anomaly r, zscore_anomaly r, temporal_anomaly r]))
   \<and> 0 \<le> anomaly_count r \<and> anomaly_count r \<le> 3
   \<and> priority_tier 0 = Some Normal \<and> priority_tier 1 = Some Low
   \<and> priority_tier 2 = Some Medium \<and> priority_tier 3 = Some High
   \<and> (\<exists>t. priority_tier (anomaly_count r) = Some t)
   \<and> (\<forall>c d t u. c \<le> d \<and> priority_tier c = Some t \<and> priority_tier d = Some u
         \<longrightarrow> tier_rank t \<le> tier_rank u)"
proof -
  have count: "anomaly_count r =
      int (length (filter (\<lambda>flag. flag)
             [iso_forest_anomaly r, zscore_anomaly r, temporal_anomaly r]))"
    unfolding anomaly_count_def by (rule flag_count)
  have range: "0 \<le> anomaly_count r \<and> anomaly_count r \<le> 3"
    by (rule anomaly_count_range)
  then have "anomaly_count r \<in> {0, 1, 2, 3}" by auto
  then have defined: "\<exists>t. priority_tier (anomaly_count r) = Some t"
    using priority_tier_values by auto
  have mono: "\<forall>c d t u. c \<le> d \<and> priority_tier c = Some t \<and> priority_tier d = Some u
         \<longrightarrow> tier_rank t \<le> tier_rank u"
  proof (intro allI impI)
    fix c d t u
    assume h: "c \<le> d \<and> priority_tier c = Some t \<and> priority_tier d = Some u"
    then have "tier_rank t = nat c" "tier_rank u = nat d"
      using priority_tier_Some by blast+
    with h show "tier_rank t \<le> tier_rank u" by linarith
  qed
  from count range defined mono priority_tier_values show ?thesis by blast
qed

theorem agreement_count_and_tier_witness:
  "anomaly_count \<lparr>v_state = ''goa'', iso_forest_anomaly = True, iso_forest_score = - 1 / 2,
       zscore_anomaly = False, temporal_anomaly = True\<rparr> = 2
   \<and> priority_tier 1 = Some Low \<and> priority_tier 2 = Some Medium
   \<and> tier_rank Low \<le> tier_rank Medium"
proof -
  let ?r = "\<lparr>v_state = ''goa'', iso_forest_anomaly = True, iso_forest_score = - 1 / 2,
       zscore_anomaly = False, temporal_anomaly = True\<rparr>"
  note t = agreement_count_and_tier [of ?r]
  have a: "anomaly_count ?r = 2" using t by simp
  have b: "priority_tier 1 = Some Low" "priority_tier 2 = Some Medium" using t by simp_all
  have "(1::int) \<le> 2 \<and> priority_tier 1 = Some Low \<and> priority_tier 2 = Some Medium"
    using b by simp
  then have "tier_rank Low \<le> tier_rank Medium" using t by blast
  with a b show ?thesis by simp
qed

lemma insertion_argsort_sorts:
  "mset (insertion_argsort ks) = mset [0..<length ks]
   \<and> sorted (map (\<lambda>i. ks ! i) (insertion_argsort ks))"
  by (simp add: insertion_argsort_def)

lemma nargsort_desc_in_range:
  assumes "mset (argsort (rev items)) = mset [0..<length items]"
  shows "\<forall>i \<in> set (nargsort_desc argsort items). i < length items"
proof
  fix i assume "i \<in> set (nargsort_desc argsort items)"
  then obtain j where j: "j \<in> set (argsort (rev items))" "i = rev [0..<length items] ! j"
    by (auto simp: nargsort_desc_def Let_def)
  from j(1) have "j \<in># mset (argsort (rev items))" by simp
  then have "j \<in> set [0..<length items]" using assms by (metis set_mset_mset)
  then have jl: "j < length items" by simp
  then have "rev [0..<length items] ! j = length items - Suc j" by (simp add: rev_nth)
  with j(2) jl show "i < length items" by simp
qed

lemma nargsort_desc_perm:
  assumes "mset (argsort (rev items)) = mset [0..<length items]"
  shows "mset (nargsort_desc argsort items) = mset [0..<length items]"
proof -
  let ?n = "length items"
  have "mset (nargsort_desc argsort items)
      = image_mset (\<lambda>j. rev [0..<?n] ! j) (mset (argsort (rev items)))"
    by (simp add: nargsort_desc_def Let_def)
  also have "\<dots> = mset (map (\<lambda>j. rev [0..<?n] ! j) [0..<?n])"
    using assms by simp
  also have "map (\<lambda>j. rev [0..<?n] ! j) [0..<?n] = rev [0..<?n]"
    by (metis length_rev length_upt map_nth minus_nat.diff_0)
  finally show ?thesis by simp
qed

lemma nargsort_desc_keys:
  assumes "mset (argsort (rev items)) = mset [0..<length items]"
  shows "rev (map (\<lambda>i. items ! i) (nargsort_desc argsort items))
      = map (\<lambda>j. rev items ! j) (argsort (rev items))"
proof -
  let ?n = "length items"
  have r: "\<forall>j \<in> set (argsort (rev items)). j < ?n"
  proof
    fix j assume "j \<in> set (argsort (rev items))"
    then have "j \<in># mset (argsort (rev items))" by simp
    then have "j \<in> set [0..<?n]" using assms by (metis set_mset_mset)
    then show "j < ?n" by simp
  qed
  have "rev (map (\<lambda>i. items ! i) (nargsort_desc argsort items))
      = map (\<lambda>j. items ! (rev [0..<?n] ! j)) (argsort (rev items))"
    by (simp add: nargsort_desc_def Let_def rev_map comp_def)
  also have "\<dots> = map (\<lambda>j. rev items ! j) (argsort (rev items))"
  proof (rule map_cong [OF refl])
    fix j assume "j \<in> set (argsort (rev items))"
    then have "j < ?n" using r by blast
    then show "items ! (rev [0..<?n] ! j) = rev items ! j" by (simp add: rev_nth)
  qed
  finally show ?thesis .
qed

lemma take_rows_mset:
  assumes "mset idx = mset [0..<length xs]"
  shows "mset (map (\<lambda>i. xs ! i) idx) = mset xs"
proof -
  have "mset (map (\<lambda>i. xs ! i) idx) = image_mset (\<lambda>i. xs ! i) (mset idx)" by simp
  also have "\<dots> = mset (map (\<lambda>i. xs ! i) [0..<length xs])" using assms by simp
  also have "\<dots> = mset xs" by (simp add: map_nth)
  finally show ?thesis .
qed

lemma consensus_s4_rescore:
  "consensus_anomalies_s4 (map (\<lambda>r. r\<lparr>iso_score := g r\<rparr>) ds)
     = map (\<lambda>r. r\<lparr>iso_score := g r\<rparr>) (consensus_anomalies_s4 ds)"
  by (simp add: consensus_anomalies_s4_def filter_map comp_def anomaly_method_count_def)

lemma consensus_sorted_props:
  assumes sorts: "\<forall>ks. mset (argsort ks) = mset [0..<length ks]
      \<and> sorted (map (\<lambda>i. ks ! i) (argsort ks))"
  shows "mset (consensus_sorted argsort ds) = mset (consensus_anomalies_s4 ds)"
    and "sorted (rev (map anomaly_method_count (consensus_sorted argsort ds)))"
    and "consensus_sorted argsort (map (\<lambda>r. r\<lparr>iso_score := g r\<rparr>) ds)
      = map (\<lambda>r. r\<lparr>iso_score := g r\<rparr>) (consensus_sorted argsort ds)"
proof -
  let ?c = "consensus_anomalies_s4 ds"
  let ?ks = "map anomaly_method_count ?c"
  let ?idx = "nargsort_desc argsort ?ks"
  have p: "mset (argsort (rev ?ks)) = mset [0..<length ?ks]"
    using sorts [rule_format, of "rev ?ks"] by simp
  have perm: "mset ?idx = mset [0..<length ?c]" using nargsort_desc_perm [of argsort ?ks, OF p] by simp
  have range: "\<forall>i \<in> set ?idx. i < length ?c" using nargsort_desc_in_range [of argsort ?ks, OF p] by simp
  show "mset (consensus_sorted argsort ds) = mset ?c"
    using take_rows_mset [of ?idx ?c, OF perm] by (simp add: consensus_sorted_def Let_def)
  have "map anomaly_method_count (consensus_sorted argsort ds) = map (\<lambda>i. ?ks ! i) ?idx"
    using range by (simp add: consensus_sorted_def Let_def comp_def)
  then have "rev (map anomaly_method_count (consensus_sorted argsort ds))
      = map (\<lambda>j. rev ?ks ! j) (argsort (rev ?ks))"
    using nargsort_desc_keys [of argsort ?ks, OF p] by simp
  then show "sorted (rev (map anomaly_method_count (consensus_sorted argsort ds)))"
    using sorts [rule_format, of "rev ?ks"] by simp
  let ?u = "\<lambda>r. r\<lparr>iso_score := g r\<rparr>"
  have ks: "map anomaly_method_count (map ?u ?c) = ?ks"
    by (simp add: comp_def anomaly_method_count_def)
  have "consensus_sorted argsort (map ?u ds) = map (\<lambda>i. map ?u ?c ! i) ?idx"
    by (simp only: consensus_sorted_def Let_def consensus_s4_rescore ks)
  also have "\<dots> = map (\<lambda>i. ?u (?c ! i)) ?idx"
    using range by (intro map_cong [OF refl]) simp
  also have "\<dots> = map ?u (consensus_sorted argsort ds)"
    by (simp add: consensus_sorted_def Let_def comp_def)
  finally show "consensus_sorted argsort (map ?u ds) = map ?u (consensus_sorted argsort ds)" .
qed

text \<open>
  Claim C9, as amended. STEP9 lists the consensus-flagged regions in the order of the
  master table, without ranking them. PHASE3\_STEP4 lists them by descending agreement
  count and by nothing else: for every \<^verbatim>\<open>argsort\<close> that sorts, the result is the flagged
  rows in descending order of the count, and replacing the isolation-forest scores by
  any others leaves the order of the rows as it is.
\<close>

theorem consensus_display_order:
  "subseq (consensus_anomalies df) df
   \<and> map fst (consensus_listing df) = map v_state (consensus_anomalies df)
   \<and> ((\<forall>ks. mset (argsort ks) = mset [0..<length ks]
            \<and> sorted (map (\<lambda>i. ks ! i) (argsort ks)))
        \<longrightarrow> mset (consensus_sorted argsort ds) = mset (consensus_anomalies_s4 ds)
          \<and> sorted (rev (map anomaly_method_count (consensus_sorted argsort ds)))
          \<and> consensus_sorted argsort (map (\<lambda>r. r\<lparr>iso_score := g r\<rparr>) ds)
              = map (\<lambda>r. r\<lparr>iso_score := g r\<rparr>) (consensus_sorted argsort ds))"
proof (intro conjI impI)
  show "subseq (consensus_anomalies df) df" by (simp add: consensus_anomalies_def)
  show "map fst (consensus_listing df) = map v_state (consensus_anomalies df)"
    by (simp add: consensus_listing_def comp_def)
next
  assume h: "\<forall>ks. mset (argsort ks) = mset [0..<length ks]
      \<and> sorted (map (\<lambda>i. ks ! i) (argsort ks))"
  show "mset (consensus_sorted argsort ds) = mset (consensus_anomalies_s4 ds)"
    using h by (rule consensus_sorted_props(1))
  show "sorted (rev (map anomaly_method_count (consensus_sorted argsort ds)))"
    using h by (rule consensus_sorted_props(2))
  show "consensus_sorted argsort (map (\<lambda>r. r\<lparr>iso_score := g r\<rparr>) ds)
      = map (\<lambda>r. r\<lparr>iso_score := g r\<rparr>) (consensus_sorted argsort ds)"
    using h by (rule consensus_sorted_props(3))
qed

text \<open>
  Four regions of PHASE3\_STEP4, three of them flagged: Assam and Goa both have count 2
  and are listed in that order, whichever of them has the more negative score.
\<close>

lemma example_consensus_sorted:
  "map state_s4 (consensus_sorted insertion_argsort
     [\<lparr>state_s4 = ''assam'', iso_is_anomaly = True, iso_score = - 1 / 2,
       zscore_is_anomaly = False, dbscan_is_anomaly = True\<rparr>,
      \<lparr>state_s4 = ''bihar'', iso_is_anomaly = False, iso_score = - 2 / 5,
       zscore_is_anomaly = False, dbscan_is_anomaly = True\<rparr>,
      \<lparr>state_s4 = ''goa'', iso_is_anomaly = True, iso_score = - 7 / 10,
       zscore_is_anomaly = True, dbscan_is_anomaly = False\<rparr>,
      \<lparr>state_s4 = ''kerala'', iso_is_anomaly = True, iso_score = - 3 / 5,
       zscore_is_anomaly = True, dbscan_is_anomaly = True\<rparr>])
   = [''kerala'', ''assam'', ''goa'']"
  by (simp add: consensus_sorted_def consensus_anomalies_s4_def anomaly_method_count_def
      astype_int_def nargsort_desc_def insertion_argsort_def Let_def
      upt_rec [of 0] upt_rec [of 1] upt_rec [of 2])

theorem consensus_display_order_witness:
  "map state_s4 (consensus_sorted insertion_argsort
     [\<lparr>state_s4 = ''assam'', iso_is_anomaly = True, iso_score = - 1 / 2,
       zscore_is_anomaly = False, dbscan_is_anomaly = True\<rparr>,
      \<lparr>state_s4 = ''bihar'', iso_is_anomaly = False, iso_score = - 2 / 5,
       zscore_is_anomaly = False, dbscan_is_anomaly = True\<rparr>,
      \<lparr>state_s4 = ''goa'', iso_is_anomaly = True, iso_score = - 7 / 10,
       zscore_is_anomaly = True, dbscan_is_anomaly = False\<rparr>,
      \<lparr>state_s4 = ''kerala'', iso_is_anomaly = True, iso_score = - 3 / 5,
       zscore_is_anomaly = True, dbscan_is_anomaly = True\<rparr>])
   = [''kerala'', ''assam'', ''goa'']
   \<and> map state_s4 (consensus_sorted insertion_argsort
     (map (\<lambda>r. r\<lparr>iso_score := - 1 - iso_score r\<rparr>)
     [\<lparr>state_s4 = ''assam'', iso_is_anomaly = True, iso_score = - 1 / 2,
       zscore_is_anomaly = False, dbscan_is_anomaly = True\<rparr>,
      \<lparr>state_s4 = ''bihar'', iso_is_anomaly = False, iso_score = - 2 / 5,
       zscore_is_anomaly = False, dbscan_is_anomaly = True\<rparr>,
      \<lparr>state_s4 = ''goa'', iso_is_anomaly = True, iso_score = - 7 / 10,
       zscore_is_anomaly = True, dbscan_is_anomaly = False\<rparr>,
      \<lparr>state_s4 = ''kerala'', iso_is_anomaly = True, iso_score = - 3 / 5,
       zscore_is_anomaly = True, dbscan_is_anomaly = True\<rparr>]))
   = [''kerala'', ''assam'', ''goa'']"
proof -
  let ?ds = "[\<lparr>state_s4 = ''assam'', iso_is_anomaly = True, iso_score = - 1 / 2,
       zscore_is_anomaly = False, dbscan_is_anomaly = True\<rparr>,
      \<lparr>state_s4 = ''bihar'', iso_is_anomaly = False, iso_score = - 2 / 5,
       zscore_is_anomaly = False, dbscan_is_anomaly = True\<rparr>,
      \<lparr>state_s4 = ''goa'', iso_is_anomaly = True, iso_score = - 7 / 10,
       zscore_is_anomaly = True, dbscan_is_anomaly = False\<rparr>,
      \<lparr>state_s4 = ''kerala'', iso_is_anomaly = True, iso_score = - 3 / 5,
       zscore_is_anomaly = True, dbscan_is_anomaly = True\<rparr>]"
  let ?g = "\<lambda>r. - 1 - iso_score r"
  have sorts: "\<forall>ks. mset (insertion_argsort ks) = mset [0..<length ks]
      \<and> sorted (map (\<lambda>i. ks ! i) (insertion_argsort ks))"
    using insertion_argsort_sorts by blast
  have "consensus_sorted insertion_argsort (map (\<lambda>r. r\<lparr>iso_score := ?g r\<rparr>) ?ds)
      = map (\<lambda>r. r\<lparr>iso_score := ?g r\<rparr>) (consensus_sorted insertion_argsort ?ds)"
    using sorts consensus_display_order [where argsort = insertion_argsort and ds = "?ds" and g = "?g"]
    by blast
  then have "map state_s4 (consensus_sorted insertion_argsort
        (map (\<lambda>r. r\<lparr>iso_score := ?g r\<rparr>) ?ds))
      = map state_s4 (consensus_sorted insertion_argsort ?ds)"
    by (simp add: comp_def)
  then show ?thesis using example_consensus_sorted by simp
qed

text \<open>
  STEP9 on a master table of twelve regions, two of them consensus-flagged: Assam, with
  agreement count 2, is listed before Bihar, with count 3 and the more negative
  isolation-forest score.
\<close>

theorem consensus_display_not_ranked:
  "consensus_listing
     [\<lparr>v_state = ''andhra'', iso_forest_anomaly = False, iso_forest_score = - 2 / 5,
       zscore_anomaly = False, temporal_anomaly = False\<rparr>,
      \<lparr>v_state = ''assam'', iso_forest_anomaly = False, iso_forest_score = - 9 / 20,
       zscore_anomaly = True, temporal_anomaly = True\<rparr>,
      \<lparr>v_state = ''bihar'', iso_forest_anomaly = True, iso_forest_score = - 7 / 10,
       zscore_anomaly = True, temporal_anomaly = True\<rparr>,
      \<lparr>v_state = ''goa'', iso_forest_anomaly = False, iso_forest_score = - 2 / 5,
       zscore_anomaly = False, temporal_anomaly = True\<rparr>,
      \<lparr>v_state = ''gujarat'', iso_forest_anomaly = False, iso_forest_score = - 2 / 5,
       zscore_anomaly = False, temporal_anomaly = False\<rparr>,
      \<lparr>v_state = ''kerala'', iso_forest_anomaly = False, iso_forest_score = - 2 / 5,
       zscore_anomaly = False, temporal_anomaly = False\<rparr>,
      \<lparr>v_state = ''manipur'', iso_forest_anomaly = False, iso_forest_score = - 2 / 5,
       zscore_anomaly = False, temporal_anomaly = False\<rparr>,
      \<lparr>v_state = ''odisha'', iso_forest_anomaly = False, iso_forest_score = - 2 / 5,
       zscore_anomaly = False, temporal_anomaly = False\<rparr>,
      \<lparr>v_state = ''punjab'', iso_forest_anomaly = False, iso_forest_score = - 2 / 5,
       zscore_anomaly = False, temporal_anomaly = False\<rparr>,
      \<lparr>v_state = ''sikkim'', iso_forest_anomaly = False, iso_forest_score = - 2 / 5,
       zscore_anomaly = False, temporal_anomaly = False\<rparr>,
      \<lparr>v_state = ''tripura'', iso_forest_anomaly = False, iso_forest_score = - 2 / 5,
       zscore_anomaly = False, temporal_anomaly = False\<rparr>,
      \<lparr>v_state = ''uttarakhand'', iso_forest_anomaly = False, iso_forest_score = - 2 / 5,
       zscore_anomaly = False, temporal_anomaly = True\<rparr>]
   = [(''assam'', 2, [''Z-Score'', ''Time-Series'']),
      (''bihar'', 3, [''Isolation Forest'', ''Z-Score'', ''Time-Series''])]
   \<and> \<not> sorted_wrt (\<lambda>c d. d \<le> c) [2, 3 :: int]"
  by (simp add: consensus_listing_def consensus_anomalies_def consensus_anomaly_def
      anomaly_count_def astype_int_def techniques_def)

section \<open>Properties of the characterizer\<close>

lemma join_hd:
  "rs \<noteq> [] \<Longrightarrow> \<forall>s \<in> set rs. s \<noteq> [] \<and> hd s \<noteq> c \<Longrightarrow>
   join sep rs \<noteq> [] \<and> hd (join sep rs) \<noteq> c"
  by (induction sep rs rule: join.induct) auto

lemma band_reason_all:
  "P high \<Longrightarrow> P low \<Longrightarrow> \<forall>s \<in> set (band_reason v col high low). P s"
  by (simp add: band_reason_def)

lemma reasons_all:
  "\<forall>s \<in> set (reasons df r). s \<noteq> [] \<and> hd s \<noteq> CHR ''C''"
  unfolding reasons_def set_append ball_Un
  by (intro conjI band_reason_all) simp_all

lemma characterize_nonempty: "characterize_anomaly df r \<noteq> []"
  using join_hd [OF _ reasons_all, of df r]
  by (simp add: characterize_anomaly_def Let_def)

lemma characterize_fallback_iff:
  "(characterize_anomaly df r = ''Complex multivariate pattern'') = (reasons df r = [])"
proof (cases "reasons df r = []")
  case True
  then show ?thesis by (simp add: characterize_anomaly_def)
next
  case False
  then have "hd (join ''; '' (reasons df r)) \<noteq> CHR ''C''"
    using join_hd [OF False reasons_all] by blast
  then have "join ''; '' (reasons df r) \<noteq> ''Complex multivariate pattern''" by auto
  with False show ?thesis by (simp add: characterize_anomaly_def)
qed

lemma reasons_unfold:
  "reasons df r =
        (if fgt (bio_update_rate r) (quantile (map bio_update_rate df) (95 / 100)) then [''Extremely high bio update rate'']
          else if flt (bio_update_rate r) (quantile (map bio_update_rate df) (5 / 100)) then [''Extremely low bio update rate'']
          else [])
        @ (if fgt (demo_update_rate r) (quantile (map demo_update_rate df) (95 / 100)) then [''Extremely high demo update rate'']
          else if flt (demo_update_rate r) (quantile (map demo_update_rate df) (5 / 100)) then [''Extremely low demo update rate'']
          else [])
        @ (if fgt (child_enrol_pct r) (quantile (map child_enrol_pct df) (95 / 100)) then [''Unusually high child enrolment %'']
          else if flt (child_enrol_pct r) (quantile (map child_enrol_pct df) (5 / 100)) then [''Unusually low child enrolment %'']
          else [])
        @ (if fgt (total_enrolments_col r) (quantile (map total_enrolments_col df) (95 / 100)) then [''Very large population'']
          else if flt (total_enrolments_col r) (quantile (map total_enrolments_col df) (5 / 100)) then [''Very small population'']
          else [])"
  by (simp add: reasons_def band_reason_def)

lemma reasons_empty_iff:
  "(reasons df r = []) =
        (\<not> fgt (bio_update_rate r) (quantile (map bio_update_rate df) (95 / 100))
         \<and> \<not> flt (bio_update_rate r) (quantile (map bio_update_rate df) (5 / 100))
         \<and> \<not> fgt (demo_update_rate r) (quantile (map demo_update_rate df) (95 / 100))
         \<and> \<not> flt (demo_update_rate r) (quantile (map demo_update_rate df) (5 / 100))
         \<and> \<not> fgt (child_enrol_pct r) (quantile (map child_enrol_pct df) (95 / 100))
         \<and> \<not> flt (child_enrol_pct r) (quantile (map child_enrol_pct df) (5 / 100))
         \<and> \<not> fgt (total_enrolments_col r) (quantile (map total_enrolments_col df) (95 / 100))
         \<and> \<not> flt (total_enrolments_col r) (quantile (map total_enrolments_col df) (5 / 100)))"
  by (simp add: reasons_def band_reason_def)

text \<open>
  The quantile is the linear interpolation between the two order statistics around
  position \<open>(n - 1) * q\<close> of the sorted numbers of the column.
\<close>

lemma quantile_order_statistics:
  assumes ne: "finite_values col \<noteq> []" and q0: "0 \<le> q" and q1: "q \<le> 1"
  shows "(let vs = sort (finite_values col); h = real (length vs - 1) * q;
              lo = nat \<lfloor>h\<rfloor>; hi = nat \<lceil>h\<rceil>
          in quantile col q = Fin (vs ! lo + (h - real lo) * (vs ! hi - vs ! lo))
             \<and> (\<exists>v. quantile col q = Fin v \<and> vs ! lo \<le> v \<and> v \<le> vs ! hi))"
proof -
  define vs where "vs = sort (finite_values col)"
  define n where "n = length vs"
  define h where "h = real (n - 1) * q"
  define lo where "lo = nat \<lfloor>h\<rfloor>"
  define hi where "hi = nat \<lceil>h\<rceil>"
  have n: "0 < n" unfolding n_def vs_def length_sort using ne by simp
  have h0: "0 \<le> h" using q0 by (simp add: h_def)
  have h1: "h \<le> real (n - 1)" using q1 by (simp add: h_def mult_left_le)
  have lo_real: "real lo = of_int \<lfloor>h\<rfloor>" using h0 by (simp add: lo_def)
  have lo_le: "real lo \<le> h" using lo_real by simp
  have lo_n: "lo \<le> n - 1"
  proof -
    have "real lo \<le> real (n - 1)" using lo_le h1 by linarith
    then show ?thesis by simp
  qed
  have q: "quantile col q =
      Fin (vs ! lo + (h - real lo) * (vs ! min (lo + 1) (n - 1) - vs ! lo))"
  proof -
    have "sort (finite_values col) \<noteq> []" using ne by (metis length_0_conv length_sort)
    then show ?thesis by (simp add: quantile_def Let_def vs_def n_def h_def lo_def)
  qed
  have val: "vs ! lo + (h - real lo) * (vs ! min (lo + 1) (n - 1) - vs ! lo)
      = vs ! lo + (h - real lo) * (vs ! hi - vs ! lo)"
  proof (cases "h = real lo")
    case True
    then show ?thesis by simp
  next
    case False
    then have lt: "real lo < h" using lo_le by simp
    have "of_int \<lfloor>h\<rfloor> < h" using lt lo_real by linarith
    moreover have "h \<le> of_int (\<lfloor>h\<rfloor> + 1)" by linarith
    ultimately have "\<lceil>h\<rceil> = \<lfloor>h\<rfloor> + 1" by (intro ceiling_unique) simp_all
    then have hi: "hi = lo + 1" using h0 by (simp add: hi_def lo_def nat_add_distrib)
    have "real lo < real (n - 1)" using lt h1 by linarith
    then have "lo + 1 \<le> n - 1" by simp
    then show ?thesis using hi by (simp add: min_def)
  qed
  have hi_n: "hi \<le> n - 1"
  proof -
    have "\<lceil>h\<rceil> \<le> int (n - 1)" using h1 by (intro ceiling_le) simp
    then show ?thesis unfolding hi_def by (simp only: nat_le_iff)
  qed
  have lo_hi: "lo \<le> hi"
    by (simp add: lo_def hi_def nat_mono floor_le_ceiling)
  have srt: "sorted vs" by (simp add: vs_def)
  have hi_lt: "hi < length vs" using hi_n n unfolding n_def by linarith
  have le: "vs ! lo \<le> vs ! hi"
    using srt lo_hi hi_lt by (rule sorted_nth_mono)
  have f0: "0 \<le> h - real lo" using lo_le by simp
  have f1: "h - real lo \<le> 1"
  proof -
    have "h < of_int \<lfloor>h\<rfloor> + 1" by linarith
    then show ?thesis using lo_real by linarith
  qed
  let ?v = "vs ! lo + (h - real lo) * (vs ! hi - vs ! lo)"
  have d0: "0 \<le> vs ! hi - vs ! lo" using le by simp
  have "0 \<le> (h - real lo) * (vs ! hi - vs ! lo)" using f0 d0 by (rule mult_nonneg_nonneg)
  then have lb: "vs ! lo \<le> ?v" by linarith
  have "(h - real lo) * (vs ! hi - vs ! lo) \<le> 1 * (vs ! hi - vs ! lo)"
    using f1 d0 by (rule mult_right_mono)
  then have "(h - real lo) * (vs ! hi - vs ! lo) \<le> vs ! hi - vs ! lo" by simp
  then have ub: "?v \<le> vs ! hi" by linarith
  have "quantile col q = Fin ?v" using q val by simp
  then have "quantile col q = Fin ?v \<and> (\<exists>v. quantile col q = Fin v \<and> vs ! lo \<le> v \<and> v \<le> vs ! hi)"
    using lb ub by blast
  then show ?thesis
    unfolding Let_def vs_def [symmetric] n_def [symmetric] h_def [symmetric]
      lo_def [symmetric] hi_def [symmetric] .
qed

lemma quantile_no_numbers: "finite_values col = [] \<Longrightarrow> quantile col q = NaN"
  by (simp add: quantile_def)

text \<open>
  Claim C10. The characterization is computed for every row of the master table, not
  only for the consensus-flagged ones, and is never empty. Its reasons are, feature by
  feature in the order bio rate, demo rate, child share, registrations: the "high"
  reason of a feature above the 95th percentile of its column, else its "low" reason
  below the 5th percentile, else none. The string is the fallback label exactly when no
  feature is outside the band, and the reasons joined by \<^verbatim>\<open>"; "\<close> otherwise. A
  percentile is the linear interpolation between the two order statistics of the
  column's numbers around position \<open>(n - 1) * q\<close>.
\<close>

theorem every_region_is_characterized:
  "length (anomaly_characterization df) = length df
   \<and> (\<forall>i<length df. anomaly_characterization df ! i = characterize_anomaly df (df ! i))
   \<and> characterize_anomaly df r \<noteq> []
   \<and> characterize_anomaly df r =
        (if reasons df r = [] then ''Complex multivariate pattern''
         else join ''; '' (reasons df r))
   \<and> reasons df r =
        (if fgt (bio_update_rate r) (quantile (map bio_update_rate df) (95 / 100)) then [''Extremely high bio update rate'']
          else if flt (bio_update_rate r) (quantile (map bio_update_rate df) (5 / 100)) then [''Extremely low bio update rate'']
          else [])
        @ (if fgt (demo_update_rate r) (quantile (map demo_update_rate df) (95 / 100)) then [''Extremely high demo update rate'']
          else if flt (demo_update_rate r) (quantile (map demo_update_rate df) (5 / 100)) then [''Extremely low demo update rate'']
          else [])
        @ (if fgt (child_enrol_pct r) (quantile (map child_enrol_pct df) (95 / 100)) then [''Unusually high child enrolment %'']
          else if flt (child_enrol_pct r) (quantile (map child_enrol_pct df) (5 / 100)) then [''Unusually low child enrolment %'']
          else [])
        @ (if fgt (total_enrolments_col r) (quantile (map total_enrolments_col df) (95 / 100)) then [''Very large population'']
          else if flt (total_enrolments_col r) (quantile (map total_enrolments_col df) (5 / 100)) then [''Very small population'']
          else [])
   \<and> (characterize_anomaly df r = ''Complex multivariate pattern'') =
        (\<not> fgt (bio_update_rate r) (quantile (map bio_update_rate df) (95 / 100))
         \<and> \<not> flt (bio_update_rate r) (quantile (map bio_update_rate df) (5 / 100))
         \<and> \<not> fgt (demo_update_rate r) (quantile (map demo_update_rate df) (95 / 100))
         \<and> \<not> flt (demo_update_rate r) (quantile (map demo_update_rate df) (5 / 100))
         \<and> \<not> fgt (child_enrol_pct r) (quantile (map child_enrol_pct df) (95 / 100))
         \<and> \<not> flt (child_enrol_pct r) (quantile (map child_enrol_pct df) (5 / 100))
         \<and> \<not> fgt (total_enrolments_col r) (quantile (map total_enrolments_col df) (95 / 100))
         \<and> \<not> flt (total_enrolments_col r) (quantile (map total_enrolments_col df) (5 / 100)))
   \<and> join sep [] = [] \<and> join sep [s1] = s1 \<and> join sep [s1, s2] = s1 @ sep @ s2
   \<and> join sep (s1 # s2 # ss) = s1 @ sep @ join sep (s2 # ss)
   \<and> (finite_values col \<noteq> [] \<and> 0 \<le> q \<and> q \<le> 1 \<longrightarrow>
        (let vs = sort (finite_values col); h = real (length vs - 1) * q;
             lo = nat \<lfloor>h\<rfloor>; hi = nat \<lceil>h\<rceil>
         in quantile col q = Fin (vs ! lo + (h - real lo) * (vs ! hi - vs ! lo))
            \<and> (\<exists>v. quantile col q = Fin v \<and> vs ! lo \<le> v \<and> v \<le> vs ! hi)))
   \<and> (finite_values col = [] \<longrightarrow> quantile col q = NaN)"
proof -
  have every: "\<forall>i<length df. anomaly_characterization df ! i = characterize_anomaly df (df ! i)"
    by (simp add: anomaly_characterization_def)
  have len: "length (anomaly_characterization df) = length df"
    by (simp add: anomaly_characterization_def)
  have shape: "characterize_anomaly df r =
        (if reasons df r = [] then ''Complex multivariate pattern''
         else join ''; '' (reasons df r))"
    by (simp add: characterize_anomaly_def Let_def)
  have fallback: "(characterize_anomaly df r = ''Complex multivariate pattern'') =
        (\<not> fgt (bio_update_rate r) (quantile (map bio_update_rate df) (95 / 100))
         \<and> \<not> flt (bio_update_rate r) (quantile (map bio_update_rate df) (5 / 100))
         \<and> \<not> fgt (demo_update_rate r) (quantile (map demo_update_rate df) (95 / 100))
         \<and> \<not> flt (demo_update_rate r) (quantile (map demo_update_rate df) (5 / 100))
         \<and> \<not> fgt (child_enrol_pct r) (quantile (map child_enrol_pct df) (95 / 100))
         \<and> \<not> flt (child_enrol_pct r) (quantile (map child_enrol_pct df) (5 / 100))
         \<and> \<not> fgt (total_enrolments_col r) (quantile (map total_enrolments_col df) (95 / 100))
         \<and> \<not> flt (total_enrolments_col r) (quantile (map total_enrolments_col df) (5 / 100)))"
    unfolding characterize_fallback_iff by (rule reasons_empty_iff)
  have joins: "join sep [] = [] \<and> join sep [s1] = s1 \<and> join sep [s1, s2] = s1 @ sep @ s2
      \<and> join sep (s1 # s2 # ss) = s1 @ sep @ join sep (s2 # ss)"
    by simp
  have quant: "finite_values col \<noteq> [] \<and> 0 \<le> q \<and> q \<le> 1 \<longrightarrow>
        (let vs = sort (finite_values col); h = real (length vs - 1) * q;
             lo = nat \<lfloor>h\<rfloor>; hi = nat \<lceil>h\<rceil>
         in quantile col q = Fin (vs ! lo + (h - real lo) * (vs ! hi - vs ! lo))
            \<and> (\<exists>v. quantile col q = Fin v \<and> vs ! lo \<le> v \<and> v \<le> vs ! hi))"
    using quantile_order_statistics by blast
  have none: "finite_values col = [] \<longrightarrow> quantile col q = NaN"
    using quantile_no_numbers by blast
  show ?thesis
    by (intro conjI len every characterize_nonempty shape reasons_unfold fallback
        joins [THEN conjunct1] joins [THEN conjunct2, THEN conjunct1]
        joins [THEN conjunct2, THEN conjunct2, THEN conjunct1]
        joins [THEN conjunct2, THEN conjunct2, THEN conjunct2] quant none)
qed

text \<open>
  Five regions: Assam has the lowest biometric rate, Sikkim the highest and the most
  registrations, the other three lie inside every band.
\<close>

lemma example_characterization:
  "anomaly_characterization
      [\<lparr>state = ''assam'', age_0_5 = 10, age_5_17 = 20, age_18_greater = 98,
        total_enrolments = 128, total_bio_updates = 8, total_demo_updates = 4\<rparr>,
       \<lparr>state = ''bihar'', age_0_5 = 10, age_5_17 = 20, age_18_greater = 98,
        total_enrolments = 128, total_bio_updates = 16, total_demo_updates = 4\<rparr>,
       \<lparr>state = ''goa'', age_0_5 = 10, age_5_17 = 20, age_18_greater = 98,
        total_enrolments = 128, total_bio_updates = 24, total_demo_updates = 4\<rparr>,
       \<lparr>state = ''kerala'', age_0_5 = 10, age_5_17 = 20, age_18_greater = 98,
        total_enrolments = 128, total_bio_updates = 32, total_demo_updates = 4\<rparr>,
       \<lparr>state = ''sikkim'', age_0_5 = 160, age_5_17 = 320, age_18_greater = 1568,
        total_enrolments = 2048, total_bio_updates = 1024, total_demo_updates = 64\<rparr>]
   = [''Extremely low bio update rate'', ''Complex multivariate pattern'',
      ''Complex multivariate pattern'', ''Complex multivariate pattern'',
      ''Extremely high bio update rate; Very large population'']"
  by (simp add: anomaly_characterization_def characterize_anomaly_def reasons_def
      band_reason_def quantile_def Let_def flt_def bio_update_rate_def demo_update_rate_def
      child_enrol_pct_def total_enrolments_col_def pct_of_def fdiv_def)

theorem every_region_is_characterized_witness:
  "anomaly_characterization
      [\<lparr>state = ''assam'', age_0_5 = 10, age_5_17 = 20, age_18_greater = 98,
        total_enrolments = 128, total_bio_updates = 8, total_demo_updates = 4\<rparr>,
       \<lparr>state = ''bihar'', age_0_5 = 10, age_5_17 = 20, age_18_greater = 98,
        total_enrolments = 128, total_bio_updates = 16, total_demo_updates = 4\<rparr>,
       \<lparr>state = ''goa'', age_0_5 = 10, age_5_17 = 20, age_18_greater = 98,
        total_enrolments = 128, total_bio_updates = 24, total_demo_updates = 4\<rparr>,
       \<lparr>state = ''kerala'', age_0_5 = 10, age_5_17 = 20, age_18_greater = 98,
        total_enrolments = 128, total_bio_updates = 32, total_demo_updates = 4\<rparr>,
       \<lparr>state = ''sikkim'', age_0_5 = 160, age_5_17 = 320, age_18_greater = 1568,
        total_enrolments = 2048, total_bio_updates = 1024, total_demo_updates = 64\<rparr>]
   = [''Extremely low bio update rate'', ''Complex multivariate pattern'',
      ''Complex multivariate pattern'', ''Complex multivariate pattern'',
      ''Extremely high bio update rate; Very large population'']
   \<and> characterize_anomaly
      [\<lparr>state = ''assam'', age_0_5 = 10, age_5_17 = 20, age_18_greater = 98,
        total_enrolments = 128, total_bio_updates = 8, total_demo_updates = 4\<rparr>,
       \<lparr>state = ''bihar'', age_0_5 = 10, age_5_17 = 20, age_18_greater = 98,
        total_enrolments = 128, total_bio_updates = 16, total_demo_updates = 4\<rparr>,
       \<lparr>state = ''goa'', age_0_5 = 10, age_5_17 = 20, age_18_greater = 98,
        total_enrolments = 128, total_bio_updates = 24, total_demo_updates = 4\<rparr>,
       \<lparr>state = ''kerala'', age_0_5 = 10, age_5_17 = 20, age_18_greater = 98,
        total_enrolments = 128, total_bio_updates = 32, total_demo_updates = 4\<rparr>,
       \<lparr>state = ''sikkim'', age_0_5 = 160, age_5_17 = 320, age_18_greater = 1568,
        total_enrolments = 2048, total_bio_updates = 1024, total_demo_updates = 64\<rparr>]
      \<lparr>state = ''bihar'', age_0_5 = 10, age_5_17 = 20, age_18_greater = 98,
        total_enrolments = 128, total_bio_updates = 16, total_demo_updates = 4\<rparr>
   = ''Complex multivariate pattern''"
proof -
  let ?df = "[\<lparr>state = ''assam'', age_0_5 = 10, age_5_17 = 20, age_18_greater = 98,
        total_enrolments = 128, total_bio_updates = 8, total_demo_updates = 4\<rparr>,
       \<lparr>state = ''bihar'', age_0_5 = 10, age_5_17 = 20, age_18_greater = 98,
        total_enrolments = 128, total_bio_updates = 16, total_demo_updates = 4\<rparr>,
       \<lparr>state = ''goa'', age_0_5 = 10, age_5_17 = 20, age_18_greater = 98,
        total_enrolments = 128, total_bio_updates = 24, total_demo_updates = 4\<rparr>,
       \<lparr>state = ''kerala'', age_0_5 = 10, age_5_17 = 20, age_18_greater = 98,
        total_enrolments = 128, total_bio_updates = 32, total_demo_updates = 4\<rparr>,
       \<lparr>state = ''sikkim'', age_0_5 = 160, age_5_17 = 320, age_18_greater = 1568,
        total_enrolments = 2048, total_bio_updates = 1024, total_demo_updates = 64\<rparr>]"
  have "\<forall>i<length ?df. anomaly_characterization ?df ! i = characterize_anomaly ?df (?df ! i)"
    using every_region_is_characterized [of ?df] by blast
  then have "anomaly_characterization ?df ! 1 = characterize_anomaly ?df (?df ! 1)"
    by simp
  then have "characterize_anomaly ?df (?df ! 1) = ''Complex multivariate pattern''"
    by (simp add: example_characterization)
  then show ?thesis using example_characterization by simp
qed

end
